theory Spec2Isabelle
  imports Main "HOL-Library.Word"
begin

unbundle bit_operations_syntax

section \<open>AltiVec registers and intrinsics\<close>

text \<open>
  The source is written for big-endian PowerPC with AltiVec. A vector register holds 16
  bytes. Seen as \<open>vector unsigned int\<close> it has four 32-bit lanes, element 0 in bytes
  0..3, the most significant byte of each element first; seen as
  \<open>vector unsigned char\<close> it is the 16 bytes in memory order.
\<close>

type_synonym u8 = "8 word"
type_synonym u32 = "32 word"

datatype vu32 = VU32 u32 u32 u32 u32

type_synonym vu8 = "u8 list"

definition be32 :: "u8 \<Rightarrow> u8 \<Rightarrow> u8 \<Rightarrow> u8 \<Rightarrow> u32" where
  "be32 b0 b1 b2 b3 =
     push_bit 24 (ucast b0) OR push_bit 16 (ucast b1) OR push_bit 8 (ucast b2) OR ucast b3"

definition byte_of :: "nat \<Rightarrow> u32 \<Rightarrow> u8" where
  "byte_of k w = ucast (drop_bit (8 * (3 - k)) w)"

fun vu8_of_vu32 :: "vu32 \<Rightarrow> vu8" where
  "vu8_of_vu32 (VU32 a b c d) =
     [byte_of 0 a, byte_of 1 a, byte_of 2 a, byte_of 3 a,
      byte_of 0 b, byte_of 1 b, byte_of 2 b, byte_of 3 b,
      byte_of 0 c, byte_of 1 c, byte_of 2 c, byte_of 3 c,
      byte_of 0 d, byte_of 1 d, byte_of 2 d, byte_of 3 d]"

definition vu32_of_vu8 :: "vu8 \<Rightarrow> vu32" where
  "vu32_of_vu8 bs =
     VU32 (be32 (bs ! 0) (bs ! 1) (bs ! 2) (bs ! 3))
          (be32 (bs ! 4) (bs ! 5) (bs ! 6) (bs ! 7))
          (be32 (bs ! 8) (bs ! 9) (bs ! 10) (bs ! 11))
          (be32 (bs ! 12) (bs ! 13) (bs ! 14) (bs ! 15))"

text \<open>The C operators \<open>+\<close>, \<open>^\<close>, \<open>&\<close>, \<open>|\<close> on \<open>vu32\<close> work lane by lane.\<close>

fun vmap2 :: "(u32 \<Rightarrow> u32 \<Rightarrow> u32) \<Rightarrow> vu32 \<Rightarrow> vu32 \<Rightarrow> vu32" where
  "vmap2 g (VU32 x0 x1 x2 x3) (VU32 y0 y1 y2 y3) = VU32 (g x0 y0) (g x1 y1) (g x2 y2) (g x3 y3)"

definition vadd :: "vu32 \<Rightarrow> vu32 \<Rightarrow> vu32" where
  "vadd x y = vmap2 (\<lambda>a b. a + b) x y"

definition vxor :: "vu32 \<Rightarrow> vu32 \<Rightarrow> vu32" where
  "vxor x y = vmap2 (\<lambda>a b. a XOR b) x y"

definition vand :: "vu32 \<Rightarrow> vu32 \<Rightarrow> vu32" where
  "vand x y = vmap2 (\<lambda>a b. a AND b) x y"

definition vor :: "vu32 \<Rightarrow> vu32 \<Rightarrow> vu32" where
  "vor x y = vmap2 (\<lambda>a b. a OR b) x y"

text \<open>\<open>vec_rl(v, l)\<close>: every lane of \<open>v\<close> rotated left by the low five bits of the
  same lane of \<open>l\<close>.\<close>

definition vec_rl :: "vu32 \<Rightarrow> vu32 \<Rightarrow> vu32" where
  "vec_rl v l = vmap2 (\<lambda>a n. word_rotl (unat n mod 32) a) v l"

text \<open>\<open>vec_sel(x, y, z)\<close>: for each bit, if the bit in \<open>z\<close> is set pick \<open>y\<close>, else \<open>x\<close>.\<close>

fun vec_sel :: "vu32 \<Rightarrow> vu32 \<Rightarrow> vu32 \<Rightarrow> vu32" where
  "vec_sel (VU32 x0 x1 x2 x3) (VU32 y0 y1 y2 y3) (VU32 z0 z1 z2 z3) =
     VU32 ((x0 AND NOT z0) OR (y0 AND z0)) ((x1 AND NOT z1) OR (y1 AND z1))
          ((x2 AND NOT z2) OR (y2 AND z2)) ((x3 AND NOT z3) OR (y3 AND z3))"

text \<open>\<open>vec_sld(x, y, n)\<close>: the 16 bytes of \<open>concat(x, y)\<close> that start at byte \<open>n\<close>.\<close>

definition vec_sld_u8 :: "vu8 \<Rightarrow> vu8 \<Rightarrow> nat \<Rightarrow> vu8" where
  "vec_sld_u8 x y n = take 16 (drop n (x @ y))"

definition vec_sld :: "vu32 \<Rightarrow> vu32 \<Rightarrow> nat \<Rightarrow> vu32" where
  "vec_sld x y n = vu32_of_vu8 (vec_sld_u8 (vu8_of_vu32 x) (vu8_of_vu32 y) n)"

text \<open>\<open>vec_perm(v, w, p)\<close>: byte \<open>j\<close> of the result is the byte of \<open>concat(v, w)\<close>
  whose index is the low five bits of \<open>p[j]\<close>.\<close>

definition vec_perm :: "vu32 \<Rightarrow> vu32 \<Rightarrow> vu8 \<Rightarrow> vu32" where
  "vec_perm v w p =
     vu32_of_vu8 (map (\<lambda>i. (vu8_of_vu32 v @ vu8_of_vu32 w) ! unat (i AND 0x1f)) p)"

fun vec_mergeh :: "vu32 \<Rightarrow> vu32 \<Rightarrow> vu32" where
  "vec_mergeh (VU32 x0 x1 x2 x3) (VU32 y0 y1 y2 y3) = VU32 x0 y0 x1 y1"

fun vec_mergel :: "vu32 \<Rightarrow> vu32 \<Rightarrow> vu32" where
  "vec_mergel (VU32 x0 x1 x2 x3) (VU32 y0 y1 y2 y3) = VU32 x2 y2 x3 y3"

text \<open>\<open>vec_ld(off, p)\<close> loads the 16 bytes at the address \<open>p + off\<close> with its low four
  bits cleared. \<open>vec_ld\<close> reads a byte buffer whose base is 16-byte aligned (the scratch
  array \<open>msl\<close>); \<open>vec_ld_u32\<close> and \<open>vec_st_u32\<close> are the same load and the store on an
  aligned array of 32-bit words, where a lane is one array element.\<close>

definition vec_ld :: "nat \<Rightarrow> u8 list \<Rightarrow> vu32" where
  "vec_ld off buf = vu32_of_vu8 (take 16 (drop (off - off mod 16) buf))"

definition vec_ld_u32 :: "nat \<Rightarrow> u32 list \<Rightarrow> vu32" where
  "vec_ld_u32 off ws =
     (let i = (off - off mod 16) div 4 in VU32 (ws ! i) (ws ! (i + 1)) (ws ! (i + 2)) (ws ! (i + 3)))"

fun vec_st_u32 :: "vu32 \<Rightarrow> nat \<Rightarrow> u32 list \<Rightarrow> u32 list" where
  "vec_st_u32 (VU32 a b c d) off ws =
     (let i = (off - off mod 16) div 4 in ws[i := a, i + 1 := b, i + 2 := c, i + 3 := d])"

section \<open>Constants of \<open>blake2s-altivec.c\<close>\<close>

definition vr1 :: vu32 where "vr1 = VU32 16 16 16 16"
definition vr2 :: vu32 where "vr2 = VU32 20 20 20 20"
definition vr3 :: vu32 where "vr3 = VU32 24 24 24 24"
definition vr4 :: vu32 where "vr4 = VU32 25 25 25 25"

definition blake2s_vsigma :: "vu8 list" where
  "blake2s_vsigma =
   [[  0,  1,  2,  3,  4,  5,  6,  7,  8,  9, 10, 11, 12, 13, 14, 15 ],
    [ 14, 10,  4,  8,  9, 15, 13,  6,  1, 12,  0,  2, 11,  7,  5,  3 ],
    [ 11,  8, 12,  0,  5,  2, 15, 13, 10, 14,  3,  6,  7,  1,  9,  4 ],
    [  7,  9,  3,  1, 13, 12, 11, 14,  2,  6,  5, 10,  4,  0, 15,  8 ],
    [  9,  0,  5,  7,  2,  4, 10, 15, 14,  1, 11, 12,  6,  8,  3, 13 ],
    [  2, 12,  6, 10,  0, 11,  8,  3,  4, 13,  7,  5, 15, 14,  1,  9 ],
    [ 12,  5,  1, 15, 14, 13,  4, 10,  0,  7,  6,  3,  9,  2,  8, 11 ],
    [ 13, 11,  7, 14, 12,  1,  3,  9,  5,  0, 15,  4,  8,  6,  2, 10 ],
    [  6, 15, 14,  9, 11,  3,  0,  8, 12,  2, 13,  7,  1,  4, 10,  5 ],
    [ 10,  2,  8,  4,  7,  6,  1,  5, 15, 11,  9, 14,  3, 12, 13 , 0 ]]"

definition blake2s_viv :: "vu32 list" where
  "blake2s_viv =
   [VU32 0x6a09e667 0xbb67ae85 0x3c6ef372 0xa54ff53a,
    VU32 0x510e527f 0x9b05688c 0x1f83d9ab 0x5be0cd19]"

definition mask_1 :: vu32 where "mask_1 = VU32 0xff000000 0xff000000 0xff000000 0xff000000"
definition mask_2 :: vu32 where "mask_2 = VU32 0x00ff0000 0x00ff0000 0x00ff0000 0x00ff0000"
definition mask_3 :: vu32 where "mask_3 = VU32 0x0000ff00 0x0000ff00 0x0000ff00 0x0000ff00"
definition mask_4 :: vu32 where "mask_4 = VU32 0x000000ff 0x000000ff 0x000000ff 0x000000ff"

section \<open>\<open>blake2s_10rounds\<close>\<close>

text \<open>The byte-slicing loop (lines 94-99): \<open>msl\<close> is the 64-byte scratch array, \<open>msg\<close>
  the bytes at the message pointer.\<close>

function byteslice_loop :: "nat \<Rightarrow> u8 list \<Rightarrow> u8 list \<Rightarrow> u8 list" where
  "byteslice_loop i msg msl =
     (if i < 16 then
        byteslice_loop (i + 1) msg
          (msl[i := msg ! (i * 4 + 3),
               i + 16 := msg ! (i * 4 + 2),
               i + 32 := msg ! (i * 4 + 1),
               i + 48 := msg ! (i * 4 + 0)])
      else msl)"
  by pat_completeness auto
termination
  by (relation "measure (\<lambda>(i, msg, msl). 16 - i)") auto

declare byteslice_loop.simps [simp del]

text \<open>The scratch array is uninitialised in C; the loop overwrites each of its 64 bytes
  (lemma \<open>byteslice_loop_init\<close> below), so the model starts it from zeros.\<close>

definition byteslice :: "u8 list \<Rightarrow> vu32 list" where
  "byteslice msg =
     (let msl = byteslice_loop 0 msg (replicate 64 0)
      in [vec_ld 0 msl, vec_ld 16 msl, vec_ld 32 msl, vec_ld 48 msl])"

text \<open>The macro \<open>ror(l, v)\<close> is \<open>vec_rl(v, l)\<close>.\<close>

definition ror :: "vu32 \<Rightarrow> vu32 \<Rightarrow> vu32" where
  "ror l v = vec_rl v l"

definition BLAKE2S_VG ::
  "vu32 \<Rightarrow> vu32 \<Rightarrow> vu32 \<Rightarrow> vu32 \<Rightarrow> vu32 \<Rightarrow> vu32 \<Rightarrow> vu32 \<times> vu32 \<times> vu32 \<times> vu32" where
  "BLAKE2S_VG M N a b c d =
     (let a = vadd a (vadd b M);
          d = ror vr1 (vxor d a);
          c = vadd c d;
          b = ror vr2 (vxor b c);
          a = vadd a (vadd b N);
          d = ror vr3 (vxor d a);
          c = vadd c d;
          b = ror vr4 (vxor b c)
      in (a, b, c, d))"

definition SELW :: "vu32 \<Rightarrow> vu32 \<Rightarrow> vu32 \<Rightarrow> vu32 \<Rightarrow> vu32" where
  "SELW x y z w = vor (vec_sel (vand x mask_1) y mask_2) (vec_sel (vand z mask_3) w mask_4)"

text \<open>The first half of the macro \<open>FULLROUND(r)\<close> (lines 129-149): the message vectors
  \<open>m1, m2, m3, m4\<close> of round \<open>r\<close>, from the byte-sliced block \<open>mv\<close>.\<close>

definition FULLROUND_msg :: "nat \<Rightarrow> vu32 list \<Rightarrow> vu32 \<times> vu32 \<times> vu32 \<times> vu32" where
  "FULLROUND_msg r mv =
     (let perm = blake2s_vsigma ! r;
          m1 = vec_perm (mv ! 0) (mv ! 0) perm;
          perm = vec_sld_u8 perm perm 15;
          m2 = vec_perm (mv ! 1) (mv ! 1) perm;
          perm = vec_sld_u8 perm perm 15;
          m3 = vec_perm (mv ! 2) (mv ! 2) perm;
          perm = vec_sld_u8 perm perm 15;
          m4 = vec_perm (mv ! 3) (mv ! 3) perm;
          ra = SELW m1 m2 m3 m4;
          rc = SELW m4 m1 m2 m3;
          rc = vec_sld rc rc 1;
          rb = SELW m3 m4 m1 m2;
          rb = vec_sld rb rb 2;
          rd = SELW m2 m3 m4 m1;
          rd = vec_sld rd rd 3;
          m1 = vec_mergeh ra rb;
          m3 = vec_mergel ra rb;
          m2 = vec_mergeh rc rd;
          m4 = vec_mergel rc rd
      in (m1, m2, m3, m4))"

text \<open>The macro \<open>FULLROUND(r)\<close> on the state vectors \<open>va, vb, vc, vd\<close>.\<close>

definition FULLROUND ::
  "nat \<Rightarrow> vu32 list \<Rightarrow> vu32 \<times> vu32 \<times> vu32 \<times> vu32 \<Rightarrow> vu32 \<times> vu32 \<times> vu32 \<times> vu32" where
  "FULLROUND r mv s =
     (case s of (va, vb, vc, vd) \<Rightarrow>
      case FULLROUND_msg r mv of (m1, m2, m3, m4) \<Rightarrow>
      case BLAKE2S_VG m1 m2 va vb vc vd of (va, vb, vc, vd) \<Rightarrow>
      let vb = vec_sld vb vb 4;
          vc = vec_sld vc vc 8;
          vd = vec_sld vd vd 12
      in case BLAKE2S_VG m3 m4 va vb vc vd of (va, vb, vc, vd) \<Rightarrow>
      let vb = vec_sld vb vb 12;
          vc = vec_sld vc vc 8;
          vd = vec_sld vd vd 4
      in (va, vb, vc, vd))"

text \<open>Lines 165-174: the ten rounds, in sequence.\<close>

definition rounds10 :: "vu32 list \<Rightarrow> vu32 \<times> vu32 \<times> vu32 \<times> vu32 \<Rightarrow> vu32 \<times> vu32 \<times> vu32 \<times> vu32" where
  "rounds10 mv s =
     (let s = FULLROUND 0 mv s;
          s = FULLROUND 1 mv s;
          s = FULLROUND 2 mv s;
          s = FULLROUND 3 mv s;
          s = FULLROUND 4 mv s;
          s = FULLROUND 5 mv s;
          s = FULLROUND 6 mv s;
          s = FULLROUND 7 mv s;
          s = FULLROUND 8 mv s;
          s = FULLROUND 9 mv s
      in s)"

text \<open>\<open>blake2s_10rounds\<close> returns the two vectors it stores through \<open>vva\<close> and \<open>vvb\<close>.\<close>

definition blake2s_10rounds :: "vu32 \<Rightarrow> vu32 \<Rightarrow> vu32 \<Rightarrow> vu32 \<Rightarrow> u8 list \<Rightarrow> vu32 \<times> vu32" where
  "blake2s_10rounds va vb vc vd msg =
     (let mv = byteslice msg
      in case rounds10 mv (va, vb, vc, vd) of (va, vb, vc, vd) \<Rightarrow>
         let va = vxor va vc;
             vb = vxor vb vd
         in (va, vb))"

section \<open>\<open>blake2s_compress\<close>\<close>

text \<open>Modelled from the spec: \<open>struct blake2s_ctx\<close> is declared in
  \<open>blake2s-internal.h\<close>, which is not among the sources. The spec gives the context as
  \<open>{H: word[8], t: word[2], f: word[2]}\<close>, and the source's comment on the load at
  \<open>&ctx->t[0]\<close> says it yields \<open>t[0], t[1], f[0], f[1]\<close>: \<open>f\<close> lies right behind
  \<open>t\<close>.\<close>

record blake2s_ctx =
  ctx_H :: "u32 list"
  ctx_t :: "u32 list"
  ctx_f :: "u32 list"

text \<open>Lines 189-193, the state loader: the four vectors handed to \<open>blake2s_10rounds\<close>.
  \<open>H[0]\<close> and \<open>H[1]\<close> are copies of \<open>va\<close> and \<open>vb\<close>.\<close>

definition blake2s_load :: "blake2s_ctx \<Rightarrow> vu32 \<times> vu32 \<times> vu32 \<times> vu32" where
  "blake2s_load ctx =
     (let va = vec_ld_u32 0 (ctx_H ctx);
          vb = vec_ld_u32 16 (ctx_H ctx);
          vpr = vec_ld_u32 0 (ctx_t ctx @ ctx_f ctx);
          vc = blake2s_viv ! 0;
          vd = vxor (blake2s_viv ! 1) vpr
      in (va, vb, vc, vd))"

definition blake2s_compress :: "blake2s_ctx \<Rightarrow> u8 list \<Rightarrow> blake2s_ctx" where
  "blake2s_compress ctx m =
     (case blake2s_load ctx of (va, vb, vc, vd) \<Rightarrow>
      let H0 = va;
          H1 = vb
      in case blake2s_10rounds va vb vc vd m of (va, vb) \<Rightarrow>
         let H0 = vxor H0 va;
             H1 = vxor H1 vb
         in ctx\<lparr>ctx_H := vec_st_u32 H1 16 (vec_st_u32 H0 0 (ctx_H ctx))\<rparr>)"

section \<open>The scalar reference\<close>

text \<open>The reference that the specification describes: the block read as sixteen
  little-endian words, a working state of sixteen words, the mixing function \<open>G\<close> on
  four of them at a time, ten rounds, and the finalizer. Addition modulo \<open>2^32\<close> and
  rotation to the right are written out.\<close>

definition add32 :: "u32 \<Rightarrow> u32 \<Rightarrow> u32" where
  "add32 x y = word_of_int ((uint x + uint y) mod 2 ^ 32)"

definition rotr32 :: "u32 \<Rightarrow> nat \<Rightarrow> u32" where
  "rotr32 x n = drop_bit n x OR push_bit (32 - n) x"

definition G_ref :: "u32 \<Rightarrow> u32 \<Rightarrow> u32 \<Rightarrow> u32 \<Rightarrow> u32 \<Rightarrow> u32 \<Rightarrow> u32 \<times> u32 \<times> u32 \<times> u32" where
  "G_ref a b c d M N =
     (let a = add32 (add32 a b) M;
          d = rotr32 (d XOR a) 16;
          c = add32 c d;
          b = rotr32 (b XOR c) 12;
          a = add32 (add32 a b) N;
          d = rotr32 (d XOR a) 8;
          c = add32 c d;
          b = rotr32 (b XOR c) 7
      in (a, b, c, d))"

text \<open>\<open>G\<close> on the words of the state \<open>v\<close> at the four indices \<open>q\<close>.\<close>

definition mix_ref :: "u32 list \<Rightarrow> nat \<times> nat \<times> nat \<times> nat \<Rightarrow> u32 \<Rightarrow> u32 \<Rightarrow> u32 list" where
  "mix_ref v q M N =
     (case q of (i, j, k, l) \<Rightarrow>
      case G_ref (v ! i) (v ! j) (v ! k) (v ! l) M N of (a, b, c, d) \<Rightarrow>
        v[i := a, j := b, k := c, l := d])"

text \<open>The quadruples: column \<open>k\<close> is \<open>(v[k], v[4+k], v[8+k], v[12+k])\<close>; the
  diagonals are \<open>(v0, v5, v10, v15)\<close>, \<open>(v1, v6, v11, v12)\<close>, \<open>(v2, v7, v8, v13)\<close>,
  \<open>(v3, v4, v9, v14)\<close>.\<close>

definition column :: "nat \<Rightarrow> nat \<times> nat \<times> nat \<times> nat" where
  "column k = (k, 4 + k, 8 + k, 12 + k)"

definition diagonal :: "nat \<Rightarrow> nat \<times> nat \<times> nat \<times> nat" where
  "diagonal k = (k, 4 + (k + 1) mod 4, 8 + (k + 2) mod 4, 12 + (k + 3) mod 4)"

text \<open>One round with the schedule row \<open>s\<close>: positions \<open>(2k, 2k+1)\<close> of \<open>s\<close> give
  the message words of the \<open>k\<close>-th application of \<open>G\<close>, the first four on the columns,
  the next four on the diagonals.\<close>

definition round_ref :: "u32 list \<Rightarrow> nat list \<Rightarrow> u32 list \<Rightarrow> u32 list" where
  "round_ref m s v =
     (let v = fold (\<lambda>k v. mix_ref v (column k) (m ! (s ! (2 * k))) (m ! (s ! (2 * k + 1)))) [0..<4] v;
          v = fold (\<lambda>k v. mix_ref v (diagonal k) (m ! (s ! (8 + 2 * k))) (m ! (s ! (9 + 2 * k)))) [0..<4] v
      in v)"

text \<open>The message schedule SIGMA of RFC 7693 (section 2.7), rows 0 to 9.\<close>

definition sigma_ref :: "nat list list" where
  "sigma_ref =
   [[0, 1, 2, 3, 4, 5, 6, 7, 8, 9, 10, 11, 12, 13, 14, 15],
    [14, 10, 4, 8, 9, 15, 13, 6, 1, 12, 0, 2, 11, 7, 5, 3],
    [11, 8, 12, 0, 5, 2, 15, 13, 10, 14, 3, 6, 7, 1, 9, 4],
    [7, 9, 3, 1, 13, 12, 11, 14, 2, 6, 5, 10, 4, 0, 15, 8],
    [9, 0, 5, 7, 2, 4, 10, 15, 14, 1, 11, 12, 6, 8, 3, 13],
    [2, 12, 6, 10, 0, 11, 8, 3, 4, 13, 7, 5, 15, 14, 1, 9],
    [12, 5, 1, 15, 14, 13, 4, 10, 0, 7, 6, 3, 9, 2, 8, 11],
    [13, 11, 7, 14, 12, 1, 3, 9, 5, 0, 15, 4, 8, 6, 2, 10],
    [6, 15, 14, 9, 11, 3, 0, 8, 12, 2, 13, 7, 1, 4, 10, 5],
    [10, 2, 8, 4, 7, 6, 1, 5, 15, 11, 9, 14, 3, 12, 13, 0]]"

text \<open>The initialization vector of RFC 7693 (section 2.6).\<close>

definition IV_ref :: "u32 list" where
  "IV_ref = [0x6A09E667, 0xBB67AE85, 0x3C6EF372, 0xA54FF53A,
             0x510E527F, 0x9B05688C, 0x1F83D9AB, 0x5BE0CD19]"

text \<open>Word \<open>i\<close> of the block: the little-endian reading of its bytes \<open>[4i, 4i+4)\<close>.\<close>

definition msg_word :: "u8 list \<Rightarrow> nat \<Rightarrow> u32" where
  "msg_word msg i =
     ucast (msg ! (4 * i)) OR push_bit 8 (ucast (msg ! (4 * i + 1))) OR
     push_bit 16 (ucast (msg ! (4 * i + 2))) OR push_bit 24 (ucast (msg ! (4 * i + 3)))"

definition block_words :: "u8 list \<Rightarrow> u32 list" where
  "block_words msg = map (msg_word msg) [0..<16]"

definition load_ref :: "u32 list \<Rightarrow> u32 list \<Rightarrow> u32 list \<Rightarrow> u32 list" where
  "load_ref H t f = H @ take 4 IV_ref @ map2 (\<lambda>x y. x XOR y) (drop 4 IV_ref) (t @ f)"

definition rounds_ref :: "u32 list \<Rightarrow> u32 list \<Rightarrow> u32 list" where
  "rounds_ref m v = fold (\<lambda>r v. round_ref m (sigma_ref ! r) v) [0..<10] v"

definition finalize_ref :: "u32 list \<Rightarrow> u32 list \<Rightarrow> u32 list" where
  "finalize_ref H v = map (\<lambda>i. H ! i XOR v ! i XOR v ! (i + 8)) [0..<8]"

definition compress_ref :: "u32 list \<Rightarrow> u32 list \<Rightarrow> u32 list \<Rightarrow> u8 list \<Rightarrow> u32 list" where
  "compress_ref H t f msg = finalize_ref H (rounds_ref (block_words msg) (load_ref H t f))"

text \<open>The sixteen words of the state held in the four vectors, and back.\<close>

fun words_of :: "vu32 \<times> vu32 \<times> vu32 \<times> vu32 \<Rightarrow> u32 list" where
  "words_of (VU32 a0 a1 a2 a3, VU32 b0 b1 b2 b3, VU32 c0 c1 c2 c3, VU32 d0 d1 d2 d3) =
     [a0, a1, a2, a3, b0, b1, b2, b3, c0, c1, c2, c3, d0, d1, d2, d3]"

definition vecs_of :: "u32 list \<Rightarrow> vu32 \<times> vu32 \<times> vu32 \<times> vu32" where
  "vecs_of v =
     (VU32 (v ! 0) (v ! 1) (v ! 2) (v ! 3), VU32 (v ! 4) (v ! 5) (v ! 6) (v ! 7),
      VU32 (v ! 8) (v ! 9) (v ! 10) (v ! 11), VU32 (v ! 12) (v ! 13) (v ! 14) (v ! 15))"

fun lane :: "vu32 \<Rightarrow> nat \<Rightarrow> u32" where
  "lane (VU32 x0 x1 x2 x3) k = [x0, x1, x2, x3] ! k"

section \<open>The call on byte-addressed memory\<close>

text \<open>
  In C the context and the block are reached through pointers. This second model of
  \<open>blake2s_compress\<close> keeps the addresses: memory maps an address to a byte, a 32-bit
  word lies in memory most significant byte first, and \<open>vec_ld\<close> and \<open>vec_st\<close> clear the
  low four bits of the effective address, as the AltiVec instructions do. The addresses
  of \<open>ctx->H\<close> and of \<open>ctx->t[0]\<close> are parameters, since the layout of
  \<open>struct blake2s_ctx\<close> is not among the sources; the source never names \<open>ctx->f\<close>.
  The scratch array \<open>msl\<close> is a local of \<open>blake2s_10rounds\<close> and is not part of this
  memory.
\<close>

type_synonym addr = nat

type_synonym memory = "addr \<Rightarrow> u8"

definition vec_ea :: "nat \<Rightarrow> addr \<Rightarrow> addr" where
  "vec_ea off p = (p + off) - (p + off) mod 16"

definition bytes_at :: "memory \<Rightarrow> addr \<Rightarrow> nat \<Rightarrow> u8 list" where
  "bytes_at mem p n = map (\<lambda>i. mem (p + i)) [0..<n]"

definition vec_ld_mem :: "nat \<Rightarrow> addr \<Rightarrow> memory \<Rightarrow> vu32" where
  "vec_ld_mem off p mem = vu32_of_vu8 (bytes_at mem (vec_ea off p) 16)"

definition vec_st_mem :: "vu32 \<Rightarrow> nat \<Rightarrow> addr \<Rightarrow> memory \<Rightarrow> memory" where
  "vec_st_mem v off p mem =
     (\<lambda>a. if vec_ea off p \<le> a \<and> a < vec_ea off p + 16
          then vu8_of_vu32 v ! (a - vec_ea off p) else mem a)"




section \<open>The test vector of RFC 7693\<close>

text \<open>Appendix B of RFC 7693 traces BLAKE2s-256 of the three bytes \<open>abc\<close>: one call of
  the compression function on the block \<open>abc\<close> padded with zeros, with the chaining value
  \<open>IV\<close> whose first word is XORed with the parameter word \<open>0x01010020\<close>, the counter
  \<open>t = (3, 0)\<close> and the flags \<open>f = (0xFFFFFFFF, 0)\<close>.\<close>

definition rfc_abc_block :: "u8 list" where
  "rfc_abc_block = [0x61, 0x62, 0x63] @ replicate 61 0"

definition rfc_abc_ctx :: blake2s_ctx where
  "rfc_abc_ctx =
     \<lparr>ctx_H = [0x6B08E647, 0xBB67AE85, 0x3C6EF372, 0xA54FF53A,
               0x510E527F, 0x9B05688C, 0x1F83D9AB, 0x5BE0CD19],
      ctx_t = [3, 0], ctx_f = [0xFFFFFFFF, 0]\<rparr>"

text \<open>The chaining value \<open>h[8]\<close> that Appendix B gives as the result of that call; its bytes
  are the digest \<open>50 8C 5E 8C 32 7C 14 E2 ...\<close> of \<open>abc\<close>.\<close>

definition rfc_abc_h :: "u32 list" where
  "rfc_abc_h = [0x8C5E8C50, 0xE2147C32, 0xA32BA7E1, 0x2F45EB4E,
                0x208B4537, 0x293AD69E, 0x4C9B994D, 0x82596786]"

section \<open>Bytes, words and vector shuffles\<close>

lemma byte_of_be32:
  "byte_of 0 (be32 a b c d) = a"
  "byte_of 1 (be32 a b c d) = b"
  "byte_of (Suc 0) (be32 a b c d) = b"
  "byte_of 2 (be32 a b c d) = c"
  "byte_of 3 (be32 a b c d) = d"
  by (rule bit_word_eqI, auto simp: byte_of_def be32_def bit_simps dest: bit_imp_le_length)+

lemma masks:
  "(0xff000000 :: u32) = push_bit 24 (mask 8)" "(0x00ff0000 :: u32) = push_bit 16 (mask 8)"
  "(0x0000ff00 :: u32) = push_bit 8 (mask 8)" "(0xff :: u32) = mask 8"
  "(- 16711681 :: u32) = NOT (push_bit 16 (mask 8))" "(- 256 :: u32) = NOT (mask 8)"
  by (simp_all add: mask_eq_exp_minus_1)

lemma be32_and_mask:
  "be32 a b c d AND 0xff000000 = push_bit 24 (ucast a)"
  "be32 a b c d AND 0x00ff0000 = push_bit 16 (ucast b)"
  "be32 a b c d AND 0x0000ff00 = push_bit 8 (ucast c)"
  "be32 a b c d AND 0x000000ff = ucast d"
  unfolding masks
  by (rule bit_word_eqI, auto simp: be32_def bit_simps dest: bit_imp_le_length)+

lemma byte_and_not_mask:
  "push_bit 24 (ucast (a::u8)) AND (- 16711681 :: u32) = push_bit 24 (ucast a)"
  "push_bit 8 (ucast (a::u8)) AND (- 256 :: u32) = push_bit 8 (ucast a)"
  unfolding masks
  by (rule bit_word_eqI, auto simp: bit_simps dest: bit_imp_le_length)+

lemma SELW_be32:
  "SELW (VU32 (be32 a0 a1 a2 a3) (be32 a4 a5 a6 a7) (be32 a8 a9 a10 a11) (be32 a12 a13 a14 a15))
        (VU32 (be32 b0 b1 b2 b3) (be32 b4 b5 b6 b7) (be32 b8 b9 b10 b11) (be32 b12 b13 b14 b15))
        (VU32 (be32 c0 c1 c2 c3) (be32 c4 c5 c6 c7) (be32 c8 c9 c10 c11) (be32 c12 c13 c14 c15))
        (VU32 (be32 d0 d1 d2 d3) (be32 d4 d5 d6 d7) (be32 d8 d9 d10 d11) (be32 d12 d13 d14 d15)) =
   VU32 (be32 a0 b1 c2 d3) (be32 a4 b5 c6 d7) (be32 a8 b9 c10 d11) (be32 a12 b13 c14 d15)"
  apply (simp add: SELW_def vor_def vand_def mask_1_def mask_2_def mask_3_def mask_4_def
      be32_and_mask byte_and_not_mask)
  apply (simp add: be32_def ac_simps)
  done

lemma replicate64:
  "replicate 64 x =
    [x,x,x,x,x,x,x,x,x,x,x,x,x,x,x,x,x,x,x,x,x,x,x,x,x,x,x,x,x,x,x,x,
     x,x,x,x,x,x,x,x,x,x,x,x,x,x,x,x,x,x,x,x,x,x,x,x,x,x,x,x,x,x,x,x]"
  by (simp add: numeral_eq_Suc)

lemma byteslice_eq:
  "byteslice msg =
    [VU32 (be32 (msg ! 3) (msg ! 7) (msg ! 11) (msg ! 15)) (be32 (msg ! 19) (msg ! 23) (msg ! 27) (msg ! 31))
          (be32 (msg ! 35) (msg ! 39) (msg ! 43) (msg ! 47)) (be32 (msg ! 51) (msg ! 55) (msg ! 59) (msg ! 63)),
     VU32 (be32 (msg ! 2) (msg ! 6) (msg ! 10) (msg ! 14)) (be32 (msg ! 18) (msg ! 22) (msg ! 26) (msg ! 30))
          (be32 (msg ! 34) (msg ! 38) (msg ! 42) (msg ! 46)) (be32 (msg ! 50) (msg ! 54) (msg ! 58) (msg ! 62)),
     VU32 (be32 (msg ! 1) (msg ! 5) (msg ! 9) (msg ! 13)) (be32 (msg ! 17) (msg ! 21) (msg ! 25) (msg ! 29))
          (be32 (msg ! 33) (msg ! 37) (msg ! 41) (msg ! 45)) (be32 (msg ! 49) (msg ! 53) (msg ! 57) (msg ! 61)),
     VU32 (be32 (msg ! 0) (msg ! 4) (msg ! 8) (msg ! 12)) (be32 (msg ! 16) (msg ! 20) (msg ! 24) (msg ! 28))
          (be32 (msg ! 32) (msg ! 36) (msg ! 40) (msg ! 44)) (be32 (msg ! 48) (msg ! 52) (msg ! 56) (msg ! 60))]"
  by (simp add: byteslice_def byteslice_loop.simps replicate64 vec_ld_def vu32_of_vu8_def)
     (simp add: numeral_2_eq_2)

lemma be32_msg_words:
  "be32 (msg ! 3) (msg ! 2) (msg ! 1) (msg ! 0) = msg_word msg 0"
  "be32 (msg ! 3) (msg ! 2) (msg ! Suc 0) (msg ! 0) = msg_word msg 0"
  "be32 (msg ! 7) (msg ! 6) (msg ! 5) (msg ! 4) = msg_word msg 1"
  "be32 (msg ! 11) (msg ! 10) (msg ! 9) (msg ! 8) = msg_word msg 2"
  "be32 (msg ! 15) (msg ! 14) (msg ! 13) (msg ! 12) = msg_word msg 3"
  "be32 (msg ! 19) (msg ! 18) (msg ! 17) (msg ! 16) = msg_word msg 4"
  "be32 (msg ! 23) (msg ! 22) (msg ! 21) (msg ! 20) = msg_word msg 5"
  "be32 (msg ! 27) (msg ! 26) (msg ! 25) (msg ! 24) = msg_word msg 6"
  "be32 (msg ! 31) (msg ! 30) (msg ! 29) (msg ! 28) = msg_word msg 7"
  "be32 (msg ! 35) (msg ! 34) (msg ! 33) (msg ! 32) = msg_word msg 8"
  "be32 (msg ! 39) (msg ! 38) (msg ! 37) (msg ! 36) = msg_word msg 9"
  "be32 (msg ! 43) (msg ! 42) (msg ! 41) (msg ! 40) = msg_word msg 10"
  "be32 (msg ! 47) (msg ! 46) (msg ! 45) (msg ! 44) = msg_word msg 11"
  "be32 (msg ! 51) (msg ! 50) (msg ! 49) (msg ! 48) = msg_word msg 12"
  "be32 (msg ! 55) (msg ! 54) (msg ! 53) (msg ! 52) = msg_word msg 13"
  "be32 (msg ! 59) (msg ! 58) (msg ! 57) (msg ! 56) = msg_word msg 14"
  "be32 (msg ! 63) (msg ! 62) (msg ! 61) (msg ! 60) = msg_word msg 15"
  by (simp_all add: be32_def msg_word_def ac_simps numeral_2_eq_2)

lemma FULLROUND_msg_rows:
  "FULLROUND_msg 0 (byteslice msg) =
     (VU32 (msg_word msg 0) (msg_word msg 2) (msg_word msg 4) (msg_word msg 6),
      VU32 (msg_word msg 1) (msg_word msg 3) (msg_word msg 5) (msg_word msg 7),
      VU32 (msg_word msg 8) (msg_word msg 10) (msg_word msg 12) (msg_word msg 14),
      VU32 (msg_word msg 9) (msg_word msg 11) (msg_word msg 13) (msg_word msg 15))"
  "FULLROUND_msg 1 (byteslice msg) =
     (VU32 (msg_word msg 14) (msg_word msg 4) (msg_word msg 9) (msg_word msg 13),
      VU32 (msg_word msg 10) (msg_word msg 8) (msg_word msg 15) (msg_word msg 6),
      VU32 (msg_word msg 1) (msg_word msg 0) (msg_word msg 11) (msg_word msg 5),
      VU32 (msg_word msg 12) (msg_word msg 2) (msg_word msg 7) (msg_word msg 3))"
  "FULLROUND_msg 2 (byteslice msg) =
     (VU32 (msg_word msg 11) (msg_word msg 12) (msg_word msg 5) (msg_word msg 15),
      VU32 (msg_word msg 8) (msg_word msg 0) (msg_word msg 2) (msg_word msg 13),
      VU32 (msg_word msg 10) (msg_word msg 3) (msg_word msg 7) (msg_word msg 9),
      VU32 (msg_word msg 14) (msg_word msg 6) (msg_word msg 1) (msg_word msg 4))"
  "FULLROUND_msg 3 (byteslice msg) =
     (VU32 (msg_word msg 7) (msg_word msg 3) (msg_word msg 13) (msg_word msg 11),
      VU32 (msg_word msg 9) (msg_word msg 1) (msg_word msg 12) (msg_word msg 14),
      VU32 (msg_word msg 2) (msg_word msg 5) (msg_word msg 4) (msg_word msg 15),
      VU32 (msg_word msg 6) (msg_word msg 10) (msg_word msg 0) (msg_word msg 8))"
  "FULLROUND_msg 4 (byteslice msg) =
     (VU32 (msg_word msg 9) (msg_word msg 5) (msg_word msg 2) (msg_word msg 10),
      VU32 (msg_word msg 0) (msg_word msg 7) (msg_word msg 4) (msg_word msg 15),
      VU32 (msg_word msg 14) (msg_word msg 11) (msg_word msg 6) (msg_word msg 3),
      VU32 (msg_word msg 1) (msg_word msg 12) (msg_word msg 8) (msg_word msg 13))"
  "FULLROUND_msg 5 (byteslice msg) =
     (VU32 (msg_word msg 2) (msg_word msg 6) (msg_word msg 0) (msg_word msg 8),
      VU32 (msg_word msg 12) (msg_word msg 10) (msg_word msg 11) (msg_word msg 3),
      VU32 (msg_word msg 4) (msg_word msg 7) (msg_word msg 15) (msg_word msg 1),
      VU32 (msg_word msg 13) (msg_word msg 5) (msg_word msg 14) (msg_word msg 9))"
  "FULLROUND_msg 6 (byteslice msg) =
     (VU32 (msg_word msg 12) (msg_word msg 1) (msg_word msg 14) (msg_word msg 4),
      VU32 (msg_word msg 5) (msg_word msg 15) (msg_word msg 13) (msg_word msg 10),
      VU32 (msg_word msg 0) (msg_word msg 6) (msg_word msg 9) (msg_word msg 8),
      VU32 (msg_word msg 7) (msg_word msg 3) (msg_word msg 2) (msg_word msg 11))"
  "FULLROUND_msg 7 (byteslice msg) =
     (VU32 (msg_word msg 13) (msg_word msg 7) (msg_word msg 12) (msg_word msg 3),
      VU32 (msg_word msg 11) (msg_word msg 14) (msg_word msg 1) (msg_word msg 9),
      VU32 (msg_word msg 5) (msg_word msg 15) (msg_word msg 8) (msg_word msg 2),
      VU32 (msg_word msg 0) (msg_word msg 4) (msg_word msg 6) (msg_word msg 10))"
  "FULLROUND_msg 8 (byteslice msg) =
     (VU32 (msg_word msg 6) (msg_word msg 14) (msg_word msg 11) (msg_word msg 0),
      VU32 (msg_word msg 15) (msg_word msg 9) (msg_word msg 3) (msg_word msg 8),
      VU32 (msg_word msg 12) (msg_word msg 13) (msg_word msg 1) (msg_word msg 10),
      VU32 (msg_word msg 2) (msg_word msg 7) (msg_word msg 4) (msg_word msg 5))"
  "FULLROUND_msg 9 (byteslice msg) =
     (VU32 (msg_word msg 10) (msg_word msg 8) (msg_word msg 7) (msg_word msg 1),
      VU32 (msg_word msg 2) (msg_word msg 4) (msg_word msg 6) (msg_word msg 5),
      VU32 (msg_word msg 15) (msg_word msg 9) (msg_word msg 3) (msg_word msg 13),
      VU32 (msg_word msg 11) (msg_word msg 14) (msg_word msg 12) (msg_word msg 0))"
  unfolding FULLROUND_msg_def Let_def
  by (simp_all add: byteslice_eq blake2s_vsigma_def vec_perm_def vec_sld_def vec_sld_u8_def
      vu32_of_vu8_def byte_of_be32 SELW_be32 be32_msg_words)

section \<open>The mixing function and one round\<close>

lemma add32_eq: "add32 x y = x + y"
proof -
  have "(uint x + uint y) mod 2 ^ 32 = uint (x + y)"
    by (simp add: uint_word_ariths)
  then show ?thesis
    unfolding add32_def by (simp only: word_of_int_uint)
qed

lemma word_rotl_rotr32:
  assumes "0 < k" "k < 32"
  shows "word_rotl (32 - k) (w::u32) = rotr32 w k"
proof (rule bit_word_eqI)
  fix n assume "n < LENGTH(32)"
  then have n: "n < 32" by simp
  have l: "bit (word_rotl (32 - k) w) n = bit w ((n + k) mod 32)"
    using assms n by (simp add: bit_word_rotl_iff)
  have r: "bit (rotr32 w k) n = (bit w (k + n) \<or> (32 - k \<le> n \<and> bit w (n - (32 - k))))"
    using n by (simp add: rotr32_def bit_or_iff bit_drop_bit_eq bit_push_bit_iff)
  show "bit (word_rotl (32 - k) w) n = bit (rotr32 w k) n"
  proof (cases "n + k < 32")
    case True
    then have "(n + k) mod 32 = k + n" "\<not> 32 - k \<le> n" by simp_all
    then show ?thesis by (simp only: l r simp_thms)
  next
    case False
    then have m: "(n + k) mod 32 = n - (32 - k)" "32 - k \<le> n"
      using n assms by (simp_all add: mod_if)
    have "\<not> bit w (k + n)"
      using False bit_imp_le_length [of w "k + n"] by auto
    then show ?thesis by (simp only: l r m simp_thms)
  qed
qed

lemma rotl_as_rotr32:
  "word_rotl 16 (w::u32) = rotr32 w 16"
  "word_rotl 20 (w::u32) = rotr32 w 12"
  "word_rotl 24 (w::u32) = rotr32 w 8"
  "word_rotl 25 (w::u32) = rotr32 w 7"
  using word_rotl_rotr32 [of 16 w] word_rotl_rotr32 [of 12 w] word_rotl_rotr32 [of 8 w]
    word_rotl_rotr32 [of 7 w]
  by simp_all

lemma rot_amounts:
  "unat (16 :: u32) mod 32 = 16" "unat (20 :: u32) mod 32 = 20"
  "unat (24 :: u32) mod 32 = 24" "unat (25 :: u32) mod 32 = 25"
  by simp_all

lemma ror_consts:
  "ror vr1 (VU32 a b c d) = VU32 (rotr32 a 16) (rotr32 b 16) (rotr32 c 16) (rotr32 d 16)"
  "ror vr2 (VU32 a b c d) = VU32 (rotr32 a 12) (rotr32 b 12) (rotr32 c 12) (rotr32 d 12)"
  "ror vr3 (VU32 a b c d) = VU32 (rotr32 a 8) (rotr32 b 8) (rotr32 c 8) (rotr32 d 8)"
  "ror vr4 (VU32 a b c d) = VU32 (rotr32 a 7) (rotr32 b 7) (rotr32 c 7) (rotr32 d 7)"
  unfolding ror_def vec_rl_def vr1_def vr2_def vr3_def vr4_def vmap2.simps rot_amounts rotl_as_rotr32
  by (rule refl)+

lemma BLAKE2S_VG_lanes:
  "BLAKE2S_VG (VU32 M0 M1 M2 M3) (VU32 N0 N1 N2 N3)
     (VU32 a0 a1 a2 a3) (VU32 b0 b1 b2 b3) (VU32 c0 c1 c2 c3) (VU32 d0 d1 d2 d3) =
   (let g0 = G_ref a0 b0 c0 d0 M0 N0; g1 = G_ref a1 b1 c1 d1 M1 N1;
        g2 = G_ref a2 b2 c2 d2 M2 N2; g3 = G_ref a3 b3 c3 d3 M3 N3
    in (VU32 (fst g0) (fst g1) (fst g2) (fst g3),
        VU32 (fst (snd g0)) (fst (snd g1)) (fst (snd g2)) (fst (snd g3)),
        VU32 (fst (snd (snd g0))) (fst (snd (snd g1))) (fst (snd (snd g2))) (fst (snd (snd g3))),
        VU32 (snd (snd (snd g0))) (snd (snd (snd g1))) (snd (snd (snd g2))) (snd (snd (snd g3)))))"
  by (simp add: BLAKE2S_VG_def G_ref_def Let_def vadd_def vxor_def ror_consts add32_eq ac_simps)

lemma be32_byte_of [simp]: "be32 (byte_of 0 w) (byte_of 1 w) (byte_of 2 w) (byte_of 3 w) = w"
proof (rule bit_word_eqI)
  fix n assume n: "n < LENGTH(32)"
  consider "n < 8" | "8 \<le> n" "n < 16" | "16 \<le> n" "n < 24" | "24 \<le> n" "n < 32"
    using n by fastforce
  then show "bit (be32 (byte_of 0 w) (byte_of 1 w) (byte_of 2 w) (byte_of 3 w)) n = bit w n"
    by cases (auto simp: byte_of_def be32_def bit_simps)
qed

lemma vec_sld_words:
  "vec_sld (VU32 a b c d) (VU32 a b c d) 4 = VU32 b c d a"
  "vec_sld (VU32 a b c d) (VU32 a b c d) 8 = VU32 c d a b"
  "vec_sld (VU32 a b c d) (VU32 a b c d) 12 = VU32 d a b c"
  by (simp_all add: vec_sld_def vec_sld_u8_def vu32_of_vu8_def del: One_nat_def)

lemma upt4: "[0..<4] = [0, 1, 2, 3]"
  by (simp add: upt_rec)

lemma upt10: "[0..<10] = [0, 1, 2, 3, 4, 5, 6, 7, 8, 9]"
  by (simp add: upt_rec)

lemma upt8: "[0..<8] = [0, 1, 2, 3, 4, 5, 6, 7]"
  by (simp add: upt_rec)

lemma upt16: "[0..<16] = [0, 1, 2, 3, 4, 5, 6, 7, 8, 9, 10, 11, 12, 13, 14, 15]"
  by (simp add: upt_rec)

lemma list16:
  assumes "length v = 16"
  shows "v = [v ! 0, v ! 1, v ! 2, v ! 3, v ! 4, v ! 5, v ! 6, v ! 7,
              v ! 8, v ! 9, v ! 10, v ! 11, v ! 12, v ! 13, v ! 14, v ! 15]"
proof -
  have "v = map (\<lambda>i. v ! i) [0..<16]"
    using assms map_nth [of v] by simp
  then show ?thesis
    unfolding upt16 by simp
qed

lemma list8:
  assumes "length v = 8"
  shows "v = [v ! 0, v ! 1, v ! 2, v ! 3, v ! 4, v ! 5, v ! 6, v ! 7]"
proof -
  have "v = map (\<lambda>i. v ! i) [0..<8]"
    using assms map_nth [of v] by simp
  then show ?thesis
    unfolding upt8 by simp
qed

lemma list2:
  assumes "length v = 2"
  shows "v = [v ! 0, v ! 1]"
proof -
  have "v = map (\<lambda>i. v ! i) [0..<2]"
    using assms map_nth [of v] by simp
  then show ?thesis
    by (simp add: upt_rec)
qed

lemma length_mix_ref: "length (mix_ref v q M N) = length v"
  by (simp add: mix_ref_def split_beta)

lemma length_round_ref: "length (round_ref m s v) = length v"
  by (simp add: round_ref_def upt4 length_mix_ref)

lemma round_ref_cong:
  assumes "map (\<lambda>j. m ! (s ! j)) [0, 1, 2, 3, 4, 5, 6, 7, 8, 9, 10, 11, 12, 13, 14, 15] =
           map (\<lambda>j. m' ! (s' ! j)) [0, 1, 2, 3, 4, 5, 6, 7, 8, 9, 10, 11, 12, 13, 14, 15]"
  shows "round_ref m s v = round_ref m' s' v"
  using assms unfolding round_ref_def upt4 by simp

lemma FULLROUND_words:
  assumes "FULLROUND_msg r mv =
     (VU32 x0 x2 x4 x6, VU32 x1 x3 x5 x7, VU32 x8 x10 x12 x14, VU32 x9 x11 x13 x15)"
  shows "FULLROUND r mv (VU32 v0 v1 v2 v3, VU32 v4 v5 v6 v7, VU32 v8 v9 v10 v11, VU32 v12 v13 v14 v15) =
    vecs_of (round_ref [x0, x1, x2, x3, x4, x5, x6, x7, x8, x9, x10, x11, x12, x13, x14, x15]
                    [0, 1, 2, 3, 4, 5, 6, 7, 8, 9, 10, 11, 12, 13, 14, 15]
                    [v0, v1, v2, v3, v4, v5, v6, v7, v8, v9, v10, v11, v12, v13, v14, v15])"
  unfolding FULLROUND_def assms round_ref_def Let_def upt4
  by (simp add: BLAKE2S_VG_lanes Let_def vec_sld_words vecs_of_def mix_ref_def column_def diagonal_def
     split_beta)

lemma r_cases:
  assumes "r < (10::nat)"
  obtains "r = 0" | "r = 1" | "r = 2" | "r = 3" | "r = 4" | "r = 5" | "r = 6" | "r = 7" | "r = 8" | "r = 9"
  using assms by atomize_elim presburger

lemma block_words_nth: "j < 16 \<Longrightarrow> block_words msg ! j = msg_word msg j"
  by (simp add: block_words_def)

lemma FULLROUND_round_ref:
  assumes "r < 10" "length v = 16"
  shows "FULLROUND r (byteslice msg) (vecs_of v) =
         vecs_of (round_ref (block_words msg) (sigma_ref ! r) v)"
proof -
  obtain v0 v1 v2 v3 v4 v5 v6 v7 v8 v9 v10 v11 v12 v13 v14 v15 where
    v: "v = [v0, v1, v2, v3, v4, v5, v6, v7, v8, v9, v10, v11, v12, v13, v14, v15]"
    using list16 [OF assms(2)] by blast
  have vv: "vecs_of v = (VU32 v0 v1 v2 v3, VU32 v4 v5 v6 v7, VU32 v8 v9 v10 v11, VU32 v12 v13 v14 v15)"
    by (simp add: v vecs_of_def)
  from assms(1) show ?thesis
  proof (cases rule: r_cases)
  
    case 1
    show ?thesis
      unfolding vv 1 FULLROUND_words [OF FULLROUND_msg_rows(1)] v [symmetric]
      by (rule arg_cong [where f = vecs_of], rule round_ref_cong)
         (simp add: sigma_ref_def block_words_nth)
  next
    case 2
    show ?thesis
      unfolding vv 2 FULLROUND_words [OF FULLROUND_msg_rows(2)] v [symmetric]
      by (rule arg_cong [where f = vecs_of], rule round_ref_cong)
         (simp add: sigma_ref_def block_words_nth)
  next
    case 3
    show ?thesis
      unfolding vv 3 FULLROUND_words [OF FULLROUND_msg_rows(3)] v [symmetric]
      by (rule arg_cong [where f = vecs_of], rule round_ref_cong)
         (simp add: sigma_ref_def block_words_nth)
  next
    case 4
    show ?thesis
      unfolding vv 4 FULLROUND_words [OF FULLROUND_msg_rows(4)] v [symmetric]
      by (rule arg_cong [where f = vecs_of], rule round_ref_cong)
         (simp add: sigma_ref_def block_words_nth)
  next
    case 5
    show ?thesis
      unfolding vv 5 FULLROUND_words [OF FULLROUND_msg_rows(5)] v [symmetric]
      by (rule arg_cong [where f = vecs_of], rule round_ref_cong)
         (simp add: sigma_ref_def block_words_nth)
  next
    case 6
    show ?thesis
      unfolding vv 6 FULLROUND_words [OF FULLROUND_msg_rows(6)] v [symmetric]
      by (rule arg_cong [where f = vecs_of], rule round_ref_cong)
         (simp add: sigma_ref_def block_words_nth)
  next
    case 7
    show ?thesis
      unfolding vv 7 FULLROUND_words [OF FULLROUND_msg_rows(7)] v [symmetric]
      by (rule arg_cong [where f = vecs_of], rule round_ref_cong)
         (simp add: sigma_ref_def block_words_nth)
  next
    case 8
    show ?thesis
      unfolding vv 8 FULLROUND_words [OF FULLROUND_msg_rows(8)] v [symmetric]
      by (rule arg_cong [where f = vecs_of], rule round_ref_cong)
         (simp add: sigma_ref_def block_words_nth)
  next
    case 9
    show ?thesis
      unfolding vv 9 FULLROUND_words [OF FULLROUND_msg_rows(9)] v [symmetric]
      by (rule arg_cong [where f = vecs_of], rule round_ref_cong)
         (simp add: sigma_ref_def block_words_nth)
  next
    case 10
    show ?thesis
      unfolding vv 10 FULLROUND_words [OF FULLROUND_msg_rows(10)] v [symmetric]
      by (rule arg_cong [where f = vecs_of], rule round_ref_cong)
         (simp add: sigma_ref_def block_words_nth)
  qed
qed

section \<open>Ten rounds, the loader and the finalizer\<close>

lemma rounds10_ref:
  assumes "length v = 16"
  shows "rounds10 (byteslice msg) (vecs_of v) = vecs_of (rounds_ref (block_words msg) v)"
  unfolding rounds10_def rounds_ref_def upt10 Let_def
  by (simp add: FULLROUND_round_ref length_round_ref assms)

lemma length_rounds_ref: "length (rounds_ref m v) = length v"
  unfolding rounds_ref_def upt10 by (simp add: length_round_ref)

lemma length_load_ref:
  "length H = 8 \<Longrightarrow> length t = 2 \<Longrightarrow> length f = 2 \<Longrightarrow> length (load_ref H t f) = 16"
  by (simp add: load_ref_def IV_ref_def)

lemma blake2s_load_ref:
  assumes "length (ctx_H ctx) = 8" "length (ctx_t ctx) = 2" "length (ctx_f ctx) = 2"
  shows "blake2s_load ctx = vecs_of (load_ref (ctx_H ctx) (ctx_t ctx) (ctx_f ctx))"
proof -
  obtain h0 h1 h2 h3 h4 h5 h6 h7 where H: "ctx_H ctx = [h0, h1, h2, h3, h4, h5, h6, h7]"
    using list8 [OF assms(1)] by blast
  obtain t0 t1 where t: "ctx_t ctx = [t0, t1]"
    using list2 [OF assms(2)] by blast
  obtain f0 f1 where f: "ctx_f ctx = [f0, f1]"
    using list2 [OF assms(3)] by blast
  show ?thesis
    by (simp add: blake2s_load_def load_ref_def vecs_of_def H t f vec_ld_u32_def blake2s_viv_def
        IV_ref_def vxor_def)
qed

lemma blake2s_compress_ref:
  assumes "length (ctx_H ctx) = 8" "length (ctx_t ctx) = 2" "length (ctx_f ctx) = 2"
  shows "blake2s_compress ctx m =
         ctx\<lparr>ctx_H := compress_ref (ctx_H ctx) (ctx_t ctx) (ctx_f ctx) m\<rparr>"
proof -
  let ?ini = "load_ref (ctx_H ctx) (ctx_t ctx) (ctx_f ctx)"
  let ?post = "rounds_ref (block_words m) ?ini"
  have l0: "length ?ini = 16"
    using assms by (rule length_load_ref)
  have lv: "length ?post = 16"
    by (simp add: length_rounds_ref l0)
  obtain v0 v1 v2 v3 v4 v5 v6 v7 v8 v9 v10 v11 v12 v13 v14 v15 where
    v: "?post = [v0, v1, v2, v3, v4, v5, v6, v7, v8, v9, v10, v11, v12, v13, v14, v15]"
    using list16 [OF lv] by blast
  obtain h0 h1 h2 h3 h4 h5 h6 h7 where H: "ctx_H ctx = [h0, h1, h2, h3, h4, h5, h6, h7]"
    using list8 [OF assms(1)] by blast
  have ld: "blake2s_load ctx =
      (VU32 h0 h1 h2 h3, VU32 h4 h5 h6 h7, VU32 (?ini ! 8) (?ini ! 9) (?ini ! 10) (?ini ! 11),
       VU32 (?ini ! 12) (?ini ! 13) (?ini ! 14) (?ini ! 15))"
    unfolding blake2s_load_ref [OF assms] vecs_of_def
    by (simp add: load_ref_def H)
  have ld': "blake2s_load ctx = vecs_of ?ini"
    by (rule blake2s_load_ref [OF assms])
  have r: "rounds10 (byteslice m) (blake2s_load ctx) =
     (VU32 v0 v1 v2 v3, VU32 v4 v5 v6 v7, VU32 v8 v9 v10 v11, VU32 v12 v13 v14 v15)"
    unfolding ld' rounds10_ref [OF l0] v by (simp add: vecs_of_def)
  have "blake2s_compress ctx m =
     ctx\<lparr>ctx_H := [h0 XOR (v0 XOR v8), h1 XOR (v1 XOR v9), h2 XOR (v2 XOR v10), h3 XOR (v3 XOR v11),
                    h4 XOR (v4 XOR v12), h5 XOR (v5 XOR v13), h6 XOR (v6 XOR v14), h7 XOR (v7 XOR v15)]\<rparr>"
    unfolding blake2s_compress_def blake2s_10rounds_def Let_def
    using r unfolding ld
    by (simp add: vxor_def H)
  also have "\<dots> = ctx\<lparr>ctx_H := compress_ref (ctx_H ctx) (ctx_t ctx) (ctx_f ctx) m\<rparr>"
    unfolding compress_ref_def finalize_ref_def v upt8
    by (simp add: H ac_simps)
  finally show ?thesis .
qed

lemma k_cases:
  assumes "k < (4::nat)"
  obtains "k = 0" | "k = 1" | "k = 2" | "k = 3"
  using assms by atomize_elim presburger

lemma words_of_vecs_of: "length v = 16 \<Longrightarrow> words_of (vecs_of v) = v"
  using list16 [of v] by (simp add: vecs_of_def)

lemma vecs_of_words_of: "vecs_of (words_of s) = s"
proof -
  obtain va vb vc vd where s: "s = (va, vb, vc, vd)"
    by (cases s) auto
  show ?thesis
    unfolding s by (cases va; cases vb; cases vc; cases vd) (simp add: vecs_of_def)
qed

lemma length_words_of: "length (words_of s) = 16"
proof -
  obtain va vb vc vd where s: "s = (va, vb, vc, vd)"
    by (cases s) auto
  show ?thesis
    unfolding s by (cases va; cases vb; cases vc; cases vd) simp
qed

lemma rotr32_word_rotr:
  assumes "0 < k" "k < 32"
  shows "rotr32 w k = word_rotr k w"
proof -
  have "word_rotl (32 - k) w = word_rotr k w"
    using assms by (simp add: word_rotl_eq_word_rotr)
  then show ?thesis
    using word_rotl_rotr32 [OF assms, of w] by simp
qed

lemma unat_add32: "unat (add32 x y) = (unat x + unat y) mod 2 ^ 32"
  by (simp add: add32_eq unat_word_ariths)


lemma G_ref_word_rotr:
  "G_ref a b c d M N =
     (let a = a + b + M;
          d = word_rotr 16 (d XOR a);
          c = c + d;
          b = word_rotr 12 (b XOR c);
          a = a + b + N;
          d = word_rotr 8 (d XOR a);
          c = c + d;
          b = word_rotr 7 (b XOR c)
      in (a, b, c, d))"
  by (simp add: G_ref_def add32_eq rotr32_word_rotr)

lemma ror_word_rotr:
  "ror vr1 (VU32 e0 e1 e2 e3) = VU32 (word_rotr 16 e0) (word_rotr 16 e1) (word_rotr 16 e2) (word_rotr 16 e3)"
  "ror vr2 (VU32 e0 e1 e2 e3) = VU32 (word_rotr 12 e0) (word_rotr 12 e1) (word_rotr 12 e2) (word_rotr 12 e3)"
  "ror vr3 (VU32 e0 e1 e2 e3) = VU32 (word_rotr 8 e0) (word_rotr 8 e1) (word_rotr 8 e2) (word_rotr 8 e3)"
  "ror vr4 (VU32 e0 e1 e2 e3) = VU32 (word_rotr 7 e0) (word_rotr 7 e1) (word_rotr 7 e2) (word_rotr 7 e3)"
  by (simp_all add: ror_consts rotr32_word_rotr)

lemma upt64:
  "[0..<64] =
     [0, 1, 2, 3, 4, 5, 6, 7, 8, 9, 10, 11, 12, 13, 14, 15] @
     [16, 17, 18, 19, 20, 21, 22, 23, 24, 25, 26, 27, 28, 29, 30, 31] @
     [32, 33, 34, 35, 36, 37, 38, 39, 40, 41, 42, 43, 44, 45, 46, 47] @
     [48, 49, 50, 51, 52, 53, 54, 55, 56, 57, 58, 59, 60, 61, 62, 63]"
  by (simp add: upt_conv_Cons)

lemma byteslice_loop_explicit:
  "byteslice_loop 0 msg [x0, x1, x2, x3, x4, x5, x6, x7, x8, x9, x10, x11, x12, x13, x14, x15, x16, x17, x18, x19, x20, x21, x22, x23, x24, x25, x26, x27, x28, x29, x30, x31, x32, x33, x34, x35, x36, x37, x38, x39, x40, x41, x42, x43, x44, x45, x46, x47, x48, x49, x50, x51, x52, x53, x54, x55, x56, x57, x58, x59, x60, x61, x62, x63] =
   byteslice_loop 0 msg (replicate 64 0)"
  by (simp add: byteslice_loop.simps replicate64)

lemma byteslice_loop_init:
  assumes "length msl = 64"
  shows "byteslice_loop 0 msg msl = byteslice_loop 0 msg (replicate 64 0)"
proof -
  have "msl = map (\<lambda>i. msl ! i) [0..<64]"
    using assms map_nth [of msl] by simp
  then have m: "msl = [msl ! 0, msl ! 1, msl ! 2, msl ! 3, msl ! 4, msl ! 5, msl ! 6, msl ! 7, msl ! 8, msl ! 9, msl ! 10, msl ! 11, msl ! 12, msl ! 13, msl ! 14, msl ! 15, msl ! 16, msl ! 17, msl ! 18, msl ! 19, msl ! 20, msl ! 21, msl ! 22, msl ! 23, msl ! 24, msl ! 25, msl ! 26, msl ! 27, msl ! 28, msl ! 29, msl ! 30, msl ! 31, msl ! 32, msl ! 33, msl ! 34, msl ! 35, msl ! 36, msl ! 37, msl ! 38, msl ! 39, msl ! 40, msl ! 41, msl ! 42, msl ! 43, msl ! 44, msl ! 45, msl ! 46, msl ! 47, msl ! 48, msl ! 49, msl ! 50, msl ! 51, msl ! 52, msl ! 53, msl ! 54, msl ! 55, msl ! 56, msl ! 57, msl ! 58, msl ! 59, msl ! 60, msl ! 61, msl ! 62, msl ! 63]"
    unfolding upt64 by simp
  show ?thesis
    by (subst m) (rule byteslice_loop_explicit)
qed

lemma blake2s_compress_final:
  assumes "length (ctx_H ctx) = 8"
  shows "blake2s_compress ctx m =
    (let v = words_of (rounds10 (byteslice m) (blake2s_load ctx))
     in ctx\<lparr>ctx_H := map (\<lambda>i. ctx_H ctx ! i XOR v ! i XOR v ! (i + 8)) [0..<8]\<rparr>)"
proof -
  obtain h0 h1 h2 h3 h4 h5 h6 h7 where H: "ctx_H ctx = [h0, h1, h2, h3, h4, h5, h6, h7]"
    using list8 [OF assms] by blast
  obtain vc vd where ld: "blake2s_load ctx = (VU32 h0 h1 h2 h3, VU32 h4 h5 h6 h7, vc, vd)"
    by (simp add: blake2s_load_def vec_ld_u32_def H Let_def)
  obtain v0 v1 v2 v3 v4 v5 v6 v7 v8 v9 v10 v11 v12 v13 v14 v15 where
    r: "rounds10 (byteslice m) (blake2s_load ctx) =
          (VU32 v0 v1 v2 v3, VU32 v4 v5 v6 v7, VU32 v8 v9 v10 v11, VU32 v12 v13 v14 v15)"
    using vecs_of_words_of [of "rounds10 (byteslice m) (blake2s_load ctx)"]
    unfolding vecs_of_def by metis
  show ?thesis
    unfolding blake2s_compress_def blake2s_10rounds_def r Let_def upt8
    using r unfolding ld
    by (simp add: vxor_def H ac_simps)
qed

lemma sigma_rows_perm:
  assumes "r < 10"
  shows "distinct (sigma_ref ! r) \<and> set (sigma_ref ! r) = {0..<16}"
proof -
  have s: "{0..<16::nat} = set [0, 1, 2, 3, 4, 5, 6, 7, 8, 9, 10, 11, 12, 13, 14, 15]"
    unfolding upt16 [symmetric] by simp
  from assms show ?thesis
    unfolding s by (cases rule: r_cases) (auto simp: sigma_ref_def)
qed

lemma vsigma_sigma_ref: "map (map unat) blake2s_vsigma = sigma_ref"
  by (simp add: blake2s_vsigma_def sigma_ref_def)

lemma vsigma_row:
  assumes "r < 10"
  shows "map unat (blake2s_vsigma ! r) = sigma_ref ! r"
proof -
  have "length blake2s_vsigma = 10"
    by (simp add: blake2s_vsigma_def)
  then have "map (map unat) blake2s_vsigma ! r = map unat (blake2s_vsigma ! r)"
    using assms by simp
  then show ?thesis
    by (simp add: vsigma_sigma_ref)
qed

lemma byteslice_bytes:
  assumes "k < 4"
  shows "vu8_of_vu32 (byteslice msg ! k) = map (\<lambda>i. msg ! (4 * i + (3 - k))) [0..<16]"
  using assms unfolding byteslice_eq upt16
  by (cases rule: k_cases) (simp_all add: byte_of_be32, simp add: numeral_2_eq_2)

lemma FULLROUND_msg_lanes:
  assumes "length msg = 64" and "r < 10" and "k < 4"
  shows "case FULLROUND_msg r (byteslice msg) of (m1, m2, m3, m4) \<Rightarrow>
     lane m1 k = msg_word msg (unat (blake2s_vsigma ! r ! (2 * k))) \<and>
     lane m2 k = msg_word msg (unat (blake2s_vsigma ! r ! (2 * k + 1))) \<and>
     lane m3 k = msg_word msg (unat (blake2s_vsigma ! r ! (8 + 2 * k))) \<and>
     lane m4 k = msg_word msg (unat (blake2s_vsigma ! r ! (9 + 2 * k)))"
  using assms(2)
proof (cases rule: r_cases)
  case 1
  from assms(3) show ?thesis unfolding 1 FULLROUND_msg_rows
    by (cases rule: k_cases) (simp_all add: blake2s_vsigma_def)
next
  case 2
  from assms(3) show ?thesis unfolding 2 FULLROUND_msg_rows
    by (cases rule: k_cases) (simp_all add: blake2s_vsigma_def)
next
  case 3
  from assms(3) show ?thesis unfolding 3 FULLROUND_msg_rows
    by (cases rule: k_cases) (simp_all add: blake2s_vsigma_def)
next
  case 4
  from assms(3) show ?thesis unfolding 4 FULLROUND_msg_rows
    by (cases rule: k_cases) (simp_all add: blake2s_vsigma_def)
next
  case 5
  from assms(3) show ?thesis unfolding 5 FULLROUND_msg_rows
    by (cases rule: k_cases) (simp_all add: blake2s_vsigma_def)
next
  case 6
  from assms(3) show ?thesis unfolding 6 FULLROUND_msg_rows
    by (cases rule: k_cases) (simp_all add: blake2s_vsigma_def)
next
  case 7
  from assms(3) show ?thesis unfolding 7 FULLROUND_msg_rows
    by (cases rule: k_cases) (simp_all add: blake2s_vsigma_def)
next
  case 8
  from assms(3) show ?thesis unfolding 8 FULLROUND_msg_rows
    by (cases rule: k_cases) (simp_all add: blake2s_vsigma_def)
next
  case 9
  from assms(3) show ?thesis unfolding 9 FULLROUND_msg_rows
    by (cases rule: k_cases) (simp_all add: blake2s_vsigma_def)
next
  case 10
  from assms(3) show ?thesis unfolding 10 FULLROUND_msg_rows
    by (cases rule: k_cases) (simp_all add: blake2s_vsigma_def)
qed

section \<open>Evaluating the reference on concrete inputs\<close>

text \<open>Rules that let the simplifier run the reference by value: each bound term is
  computed before it is substituted, and a rotation keeps its result below \<open>2^32\<close>.\<close>

lemma rotr32_eval:
  assumes "n \<le> 32"
  shows "rotr32 x n = drop_bit n x OR push_bit (32 - n) (take_bit n x)"
  unfolding rotr32_def
  by (rule arg_cong [where f = "\<lambda>y. drop_bit n x OR y"], rule bit_word_eqI)
     (use assms in \<open>auto simp: bit_simps\<close>)

lemma case_prod_weak_cong: "p = q \<Longrightarrow> case_prod c p = case_prod c q"
  by simp

lemma mix_ref_eval:
  "mix_ref v (i, j, k, l) M N =
     (case G_ref (v ! i) (v ! j) (v ! k) (v ! l) M N of
        (a, b, c, d) \<Rightarrow> v[i := a, j := b, k := c, l := d])"
  by (simp add: mix_ref_def)

lemma round_ref_eval:
  "round_ref m s v =
     (let v = mix_ref v (0, 4, 8, 12) (m ! (s ! 0)) (m ! (s ! 1));
          v = mix_ref v (1, 5, 9, 13) (m ! (s ! 2)) (m ! (s ! 3));
          v = mix_ref v (2, 6, 10, 14) (m ! (s ! 4)) (m ! (s ! 5));
          v = mix_ref v (3, 7, 11, 15) (m ! (s ! 6)) (m ! (s ! 7));
          v = mix_ref v (0, 5, 10, 15) (m ! (s ! 8)) (m ! (s ! 9));
          v = mix_ref v (1, 6, 11, 12) (m ! (s ! 10)) (m ! (s ! 11));
          v = mix_ref v (2, 7, 8, 13) (m ! (s ! 12)) (m ! (s ! 13));
          v = mix_ref v (3, 4, 9, 14) (m ! (s ! 14)) (m ! (s ! 15))
      in v)"
  by (simp add: round_ref_def upt4 column_def diagonal_def)

lemma rounds_ref_eval:
  "rounds_ref m v =
     (let v = round_ref m (sigma_ref ! 0) v;
          v = round_ref m (sigma_ref ! 1) v;
          v = round_ref m (sigma_ref ! 2) v;
          v = round_ref m (sigma_ref ! 3) v;
          v = round_ref m (sigma_ref ! 4) v;
          v = round_ref m (sigma_ref ! 5) v;
          v = round_ref m (sigma_ref ! 6) v;
          v = round_ref m (sigma_ref ! 7) v;
          v = round_ref m (sigma_ref ! 8) v;
          v = round_ref m (sigma_ref ! 9) v
      in v)"
  by (simp add: rounds_ref_def upt10)

lemma replicate61:
  "replicate 61 x =
    [x,x,x,x,x,x,x,x,x,x,x,x,x,x,x,x,x,x,x,x,x,x,x,x,x,x,x,x,x,x,x,x,
     x,x,x,x,x,x,x,x,x,x,x,x,x,x,x,x,x,x,x,x,x,x,x,x,x,x,x,x,x]"
  by (simp add: numeral_eq_Suc)

lemma abc_block_words:
  "block_words rfc_abc_block = [0x00636261, 0, 0, 0, 0, 0, 0, 0, 0, 0, 0, 0, 0, 0, 0, 0]"
  by (simp add: block_words_def upt16 msg_word_def rfc_abc_block_def replicate61)

lemma abc_round0:
  "round_ref
     (block_words rfc_abc_block)
     (sigma_ref ! 0)
     [0x6B08E647, 0xBB67AE85, 0x3C6EF372, 0xA54FF53A,
      0x510E527F, 0x9B05688C, 0x1F83D9AB, 0x5BE0CD19,
      0x6A09E667, 0xBB67AE85, 0x3C6EF372, 0xA54FF53A,
      0x510E527C, 0x9B05688C, 0xE07C2654, 0x5BE0CD19] =
     [0x16A3242E, 0xD7B5E238, 0xCE8CE24B, 0x927AEDE1,
      0xA7B430D9, 0x93A4A14E, 0xA44E7C31, 0x41D4759B,
      0x95BF33D3, 0x9A99C181, 0x608A3A6B, 0xB666383E,
      0x7A8DD50F, 0xBE378ED7, 0x353D1EE6, 0x3BB44C6B]"
  by (simp add: abc_block_words round_ref_eval sigma_ref_def mix_ref_eval G_ref_def Let_def add32_eq rotr32_eval
      cong: let_weak_cong case_prod_weak_cong)

lemma abc_round1:
  "round_ref
     (block_words rfc_abc_block)
     (sigma_ref ! 1)
     [0x16A3242E, 0xD7B5E238, 0xCE8CE24B, 0x927AEDE1,
      0xA7B430D9, 0x93A4A14E, 0xA44E7C31, 0x41D4759B,
      0x95BF33D3, 0x9A99C181, 0x608A3A6B, 0xB666383E,
      0x7A8DD50F, 0xBE378ED7, 0x353D1EE6, 0x3BB44C6B] =
     [0x3AE30FE3, 0x0982A96B, 0xE88185B4, 0x3E339B16,
      0xF24338CD, 0x0E66D326, 0xE005ED0C, 0xD591A277,
      0x180B1F3A, 0xFCF43914, 0x30DB62D6, 0x4847831C,
      0x7F00C58E, 0xFB847886, 0xC544E836, 0x524AB0E2]"
  by (simp add: abc_block_words round_ref_eval sigma_ref_def mix_ref_eval G_ref_def Let_def add32_eq rotr32_eval
      cong: let_weak_cong case_prod_weak_cong)

lemma abc_round2:
  "round_ref
     (block_words rfc_abc_block)
     (sigma_ref ! 2)
     [0x3AE30FE3, 0x0982A96B, 0xE88185B4, 0x3E339B16,
      0xF24338CD, 0x0E66D326, 0xE005ED0C, 0xD591A277,
      0x180B1F3A, 0xFCF43914, 0x30DB62D6, 0x4847831C,
      0x7F00C58E, 0xFB847886, 0xC544E836, 0x524AB0E2] =
     [0x7A3BE783, 0x997546C1, 0xD45246DF, 0xEDB5F821,
      0x7F98A742, 0x10E864E2, 0xD4AB70D0, 0xC63CB1AB,
      0x6038DA9E, 0x414594B0, 0xF2C218B5, 0x8DA0DCB7,
      0xD7CD7AF5, 0xAB4909DF, 0x85031A52, 0xC4EDFC98]"
  by (simp add: abc_block_words round_ref_eval sigma_ref_def mix_ref_eval G_ref_def Let_def add32_eq rotr32_eval
      cong: let_weak_cong case_prod_weak_cong)

lemma abc_round3:
  "round_ref
     (block_words rfc_abc_block)
     (sigma_ref ! 3)
     [0x7A3BE783, 0x997546C1, 0xD45246DF, 0xEDB5F821,
      0x7F98A742, 0x10E864E2, 0xD4AB70D0, 0xC63CB1AB,
      0x6038DA9E, 0x414594B0, 0xF2C218B5, 0x8DA0DCB7,
      0xD7CD7AF5, 0xAB4909DF, 0x85031A52, 0xC4EDFC98] =
     [0x2A8B8CB7, 0x1ACA82B2, 0x14045D7F, 0xCC7258ED,
      0x383CF67C, 0xE090E7F9, 0x3025D276, 0x57D04DE4,
      0x994BACF0, 0xF0982759, 0xF17EE300, 0xD48FC2D5,
      0xDC854C10, 0x523898A9, 0xC03A0F89, 0x47D6CD88]"
  by (simp add: abc_block_words round_ref_eval sigma_ref_def mix_ref_eval G_ref_def Let_def add32_eq rotr32_eval
      cong: let_weak_cong case_prod_weak_cong)

lemma abc_round4:
  "round_ref
     (block_words rfc_abc_block)
     (sigma_ref ! 4)
     [0x2A8B8CB7, 0x1ACA82B2, 0x14045D7F, 0xCC7258ED,
      0x383CF67C, 0xE090E7F9, 0x3025D276, 0x57D04DE4,
      0x994BACF0, 0xF0982759, 0xF17EE300, 0xD48FC2D5,
      0xDC854C10, 0x523898A9, 0xC03A0F89, 0x47D6CD88] =
     [0xC4AA2DDB, 0x111343A3, 0xD54A700A, 0x574A00A9,
      0x857D5A48, 0xB1E11989, 0x6F5C52DF, 0xDD2C53A3,
      0x678E5F8E, 0x9718D4E9, 0x622CB684, 0x92976076,
      0x0E41A517, 0x359DC2BE, 0x87A87DDD, 0x643F9CEC]"
  by (simp add: abc_block_words round_ref_eval sigma_ref_def mix_ref_eval G_ref_def Let_def add32_eq rotr32_eval
      cong: let_weak_cong case_prod_weak_cong)

lemma abc_round5:
  "round_ref
     (block_words rfc_abc_block)
     (sigma_ref ! 5)
     [0xC4AA2DDB, 0x111343A3, 0xD54A700A, 0x574A00A9,
      0x857D5A48, 0xB1E11989, 0x6F5C52DF, 0xDD2C53A3,
      0x678E5F8E, 0x9718D4E9, 0x622CB684, 0x92976076,
      0x0E41A517, 0x359DC2BE, 0x87A87DDD, 0x643F9CEC] =
     [0x3453921C, 0xD7595EE1, 0x592E776D, 0x3ED6A974,
      0x4D997CB3, 0xDE9212C3, 0x35ADF5C9, 0x9916FD65,
      0x96562E89, 0x4EAD0792, 0xEBFC2712, 0x2385F5B2,
      0xF34600FB, 0xD7BC20FB, 0xEB452A7B, 0xECE1AA40]"
  by (simp add: abc_block_words round_ref_eval sigma_ref_def mix_ref_eval G_ref_def Let_def add32_eq rotr32_eval
      cong: let_weak_cong case_prod_weak_cong)

lemma abc_round6:
  "round_ref
     (block_words rfc_abc_block)
     (sigma_ref ! 6)
     [0x3453921C, 0xD7595EE1, 0x592E776D, 0x3ED6A974,
      0x4D997CB3, 0xDE9212C3, 0x35ADF5C9, 0x9916FD65,
      0x96562E89, 0x4EAD0792, 0xEBFC2712, 0x2385F5B2,
      0xF34600FB, 0xD7BC20FB, 0xEB452A7B, 0xECE1AA40] =
     [0xBE851B2D, 0xA85F6358, 0x81E6FC3B, 0x0BB28000,
      0xFA55A33A, 0x87BE1FAD, 0x4119370F, 0x1E2261AA,
      0xA1318FD3, 0xF4329816, 0x071783C2, 0x6E536A8D,
      0x9A81A601, 0xE7EC80F1, 0xACC09948, 0xF849A584]"
  by (simp add: abc_block_words round_ref_eval sigma_ref_def mix_ref_eval G_ref_def Let_def add32_eq rotr32_eval
      cong: let_weak_cong case_prod_weak_cong)

lemma abc_round7:
  "round_ref
     (block_words rfc_abc_block)
     (sigma_ref ! 7)
     [0xBE851B2D, 0xA85F6358, 0x81E6FC3B, 0x0BB28000,
      0xFA55A33A, 0x87BE1FAD, 0x4119370F, 0x1E2261AA,
      0xA1318FD3, 0xF4329816, 0x071783C2, 0x6E536A8D,
      0x9A81A601, 0xE7EC80F1, 0xACC09948, 0xF849A584] =
     [0x07E5B85A, 0x069CC164, 0xF9DE3141, 0xA56F4680,
      0x9E440AD2, 0x9AB659EA, 0x3C84B971, 0x21DBD9CF,
      0x46699F8C, 0x765257EC, 0xAF1D998C, 0x75E4C3B6,
      0x523878DC, 0x30715015, 0x397FEE81, 0x4F1FA799]"
  by (simp add: abc_block_words round_ref_eval sigma_ref_def mix_ref_eval G_ref_def Let_def add32_eq rotr32_eval
      cong: let_weak_cong case_prod_weak_cong)

lemma abc_round8:
  "round_ref
     (block_words rfc_abc_block)
     (sigma_ref ! 8)
     [0x07E5B85A, 0x069CC164, 0xF9DE3141, 0xA56F4680,
      0x9E440AD2, 0x9AB659EA, 0x3C84B971, 0x21DBD9CF,
      0x46699F8C, 0x765257EC, 0xAF1D998C, 0x75E4C3B6,
      0x523878DC, 0x30715015, 0x397FEE81, 0x4F1FA799] =
     [0x435148C4, 0xA5AA2D11, 0x4B354173, 0xD543BC9E,
      0xBDA2591C, 0xBF1D2569, 0x4FCB3120, 0x707ADA48,
      0x565B3FDE, 0x32C9C916, 0xEAF4A1AB, 0xB1018F28,
      0x8078D978, 0x68ADE4B5, 0x9778FDA3, 0x2863B92E]"
  by (simp add: abc_block_words round_ref_eval sigma_ref_def mix_ref_eval G_ref_def Let_def add32_eq rotr32_eval
      cong: let_weak_cong case_prod_weak_cong)

lemma abc_round9:
  "round_ref
     (block_words rfc_abc_block)
     (sigma_ref ! 9)
     [0x435148C4, 0xA5AA2D11, 0x4B354173, 0xD543BC9E,
      0xBDA2591C, 0xBF1D2569, 0x4FCB3120, 0x707ADA48,
      0x565B3FDE, 0x32C9C916, 0xEAF4A1AB, 0xB1018F28,
      0x8078D978, 0x68ADE4B5, 0x9778FDA3, 0x2863B92E] =
     [0xD9C994AA, 0xCFEC3AA6, 0x700D0AB2, 0x2C38670E,
      0xAF6A1F66, 0x1D023EF3, 0x1D9EC27D, 0x945357A5,
      0x3E9FFEBD, 0x969FE811, 0xEF485E21, 0xA632797A,
      0xDEEF082E, 0xAF3D80E1, 0x4E86829B, 0x4DEAFD3A]"
  by (simp add: abc_block_words round_ref_eval sigma_ref_def mix_ref_eval G_ref_def Let_def add32_eq rotr32_eval
      cong: let_weak_cong case_prod_weak_cong)

lemma abc_rounds:
  "rounds_ref
     (block_words rfc_abc_block)
     [0x6B08E647, 0xBB67AE85, 0x3C6EF372, 0xA54FF53A,
      0x510E527F, 0x9B05688C, 0x1F83D9AB, 0x5BE0CD19,
      0x6A09E667, 0xBB67AE85, 0x3C6EF372, 0xA54FF53A,
      0x510E527C, 0x9B05688C, 0xE07C2654, 0x5BE0CD19] =
     [0xD9C994AA, 0xCFEC3AA6, 0x700D0AB2, 0x2C38670E,
      0xAF6A1F66, 0x1D023EF3, 0x1D9EC27D, 0x945357A5,
      0x3E9FFEBD, 0x969FE811, 0xEF485E21, 0xA632797A,
      0xDEEF082E, 0xAF3D80E1, 0x4E86829B, 0x4DEAFD3A]"
  unfolding rounds_ref_eval Let_def
  by (simp only: abc_round0 abc_round1 abc_round2 abc_round3 abc_round4 abc_round5 abc_round6 abc_round7 abc_round8 abc_round9)

lemma zero_h_round0:
  "round_ref
     (block_words rfc_abc_block)
     (sigma_ref ! 0)
     [0x00000000, 0x00000000, 0x00000000, 0x00000000,
      0x00000000, 0x00000000, 0x00000000, 0x00000000,
      0x6A09E667, 0xBB67AE85, 0x3C6EF372, 0xA54FF53A,
      0x510E527F, 0x9B05688C, 0x1F83D9AB, 0x5BE0CD19] =
     [0x49B36F1D, 0x990EBA41, 0x0E0877DC, 0xAB6D9794,
      0xF5100201, 0x38711A5B, 0x1A848DE2, 0x108227DA,
      0x99D0BEE1, 0xCD08F896, 0xCE86F037, 0x1E790B29,
      0xC2EA460F, 0x69035F03, 0x01CE3BD3, 0x6666BC49]"
  by (simp add: abc_block_words round_ref_eval sigma_ref_def mix_ref_eval G_ref_def Let_def add32_eq rotr32_eval
      cong: let_weak_cong case_prod_weak_cong)

lemma zero_h_round1:
  "round_ref
     (block_words rfc_abc_block)
     (sigma_ref ! 1)
     [0x49B36F1D, 0x990EBA41, 0x0E0877DC, 0xAB6D9794,
      0xF5100201, 0x38711A5B, 0x1A848DE2, 0x108227DA,
      0x99D0BEE1, 0xCD08F896, 0xCE86F037, 0x1E790B29,
      0xC2EA460F, 0x69035F03, 0x01CE3BD3, 0x6666BC49] =
     [0x0795BE2C, 0xFEA61F23, 0x807F3C2B, 0x6C0AB991,
      0x85592BDC, 0x3CBB9DFD, 0x9D87D49E, 0x6F1F685B,
      0x675D00B2, 0xD2C0FB35, 0x163D53E8, 0xC991171B,
      0xF15C448B, 0xB00503E1, 0x68AB55D0, 0x3F422F16]"
  by (simp add: abc_block_words round_ref_eval sigma_ref_def mix_ref_eval G_ref_def Let_def add32_eq rotr32_eval
      cong: let_weak_cong case_prod_weak_cong)

lemma zero_h_round2:
  "round_ref
     (block_words rfc_abc_block)
     (sigma_ref ! 2)
     [0x0795BE2C, 0xFEA61F23, 0x807F3C2B, 0x6C0AB991,
      0x85592BDC, 0x3CBB9DFD, 0x9D87D49E, 0x6F1F685B,
      0x675D00B2, 0xD2C0FB35, 0x163D53E8, 0xC991171B,
      0xF15C448B, 0xB00503E1, 0x68AB55D0, 0x3F422F16] =
     [0x0FED095C, 0x0EE23FE6, 0x06C3281E, 0xE57DB48F,
      0x95F4733E, 0x372A74D5, 0xE54ED097, 0x4B0AF319,
      0xF486DB45, 0x20B32322, 0xB3286229, 0xA7049B53,
      0xD5952F1E, 0x911885CA, 0xC6B751C8, 0x914038BD]"
  by (simp add: abc_block_words round_ref_eval sigma_ref_def mix_ref_eval G_ref_def Let_def add32_eq rotr32_eval
      cong: let_weak_cong case_prod_weak_cong)

lemma zero_h_round3:
  "round_ref
     (block_words rfc_abc_block)
     (sigma_ref ! 3)
     [0x0FED095C, 0x0EE23FE6, 0x06C3281E, 0xE57DB48F,
      0x95F4733E, 0x372A74D5, 0xE54ED097, 0x4B0AF319,
      0xF486DB45, 0x20B32322, 0xB3286229, 0xA7049B53,
      0xD5952F1E, 0x911885CA, 0xC6B751C8, 0x914038BD] =
     [0x1D86D1A4, 0xB33F5ADB, 0x9C18D78E, 0xAC37D005,
      0x218D1C4C, 0x2EEA3BDB, 0x1A469218, 0xFF7856C9,
      0x45F9AF8D, 0xAB744B4F, 0x5844D18B, 0x2868E55F,
      0xBB199A0B, 0x690771C1, 0x202E2C22, 0x0634D75D]"
  by (simp add: abc_block_words round_ref_eval sigma_ref_def mix_ref_eval G_ref_def Let_def add32_eq rotr32_eval
      cong: let_weak_cong case_prod_weak_cong)

lemma zero_h_round4:
  "round_ref
     (block_words rfc_abc_block)
     (sigma_ref ! 4)
     [0x1D86D1A4, 0xB33F5ADB, 0x9C18D78E, 0xAC37D005,
      0x218D1C4C, 0x2EEA3BDB, 0x1A469218, 0xFF7856C9,
      0x45F9AF8D, 0xAB744B4F, 0x5844D18B, 0x2868E55F,
      0xBB199A0B, 0x690771C1, 0x202E2C22, 0x0634D75D] =
     [0xC20AFBC0, 0x3FACFE87, 0xF6A7CC88, 0xCC2504D7,
      0xC2EE8FD1, 0x579954BC, 0xCAD5E5D2, 0xBB8FE34A,
      0x89FB208E, 0xFBB681AB, 0x3081D4D0, 0x0E4DE8A9,
      0x200984FD, 0x4E52CF9E, 0xB574DCEF, 0x007FEDA0]"
  by (simp add: abc_block_words round_ref_eval sigma_ref_def mix_ref_eval G_ref_def Let_def add32_eq rotr32_eval
      cong: let_weak_cong case_prod_weak_cong)

lemma zero_h_round5:
  "round_ref
     (block_words rfc_abc_block)
     (sigma_ref ! 5)
     [0xC20AFBC0, 0x3FACFE87, 0xF6A7CC88, 0xCC2504D7,
      0xC2EE8FD1, 0x579954BC, 0xCAD5E5D2, 0xBB8FE34A,
      0x89FB208E, 0xFBB681AB, 0x3081D4D0, 0x0E4DE8A9,
      0x200984FD, 0x4E52CF9E, 0xB574DCEF, 0x007FEDA0] =
     [0xA6C3299F, 0xD9F35058, 0xC2C71C2F, 0x63D23C4E,
      0x2E72E2BB, 0x224B65BA, 0xD0FF53A6, 0x5AECB79D,
      0xF1BDD789, 0x2BD889D6, 0x7BE183F6, 0x5CE2E81A,
      0xD04EF533, 0x259F5121, 0x230B9F0D, 0x4E729080]"
  by (simp add: abc_block_words round_ref_eval sigma_ref_def mix_ref_eval G_ref_def Let_def add32_eq rotr32_eval
      cong: let_weak_cong case_prod_weak_cong)

lemma zero_h_round6:
  "round_ref
     (block_words rfc_abc_block)
     (sigma_ref ! 6)
     [0xA6C3299F, 0xD9F35058, 0xC2C71C2F, 0x63D23C4E,
      0x2E72E2BB, 0x224B65BA, 0xD0FF53A6, 0x5AECB79D,
      0xF1BDD789, 0x2BD889D6, 0x7BE183F6, 0x5CE2E81A,
      0xD04EF533, 0x259F5121, 0x230B9F0D, 0x4E729080] =
     [0x0B51222E, 0xFD4BDB10, 0x05C54B17, 0x1FBF8664,
      0x9FDBE1EB, 0x7BB80B5D, 0x8AAFA1C1, 0x0D2316EA,
      0x87449766, 0xF11E1A16, 0x995365B0, 0x263ED27D,
      0x64DE77B5, 0x6C4F6186, 0x4E73B062, 0x014F1E3A]"
  by (simp add: abc_block_words round_ref_eval sigma_ref_def mix_ref_eval G_ref_def Let_def add32_eq rotr32_eval
      cong: let_weak_cong case_prod_weak_cong)

lemma zero_h_round7:
  "round_ref
     (block_words rfc_abc_block)
     (sigma_ref ! 7)
     [0x0B51222E, 0xFD4BDB10, 0x05C54B17, 0x1FBF8664,
      0x9FDBE1EB, 0x7BB80B5D, 0x8AAFA1C1, 0x0D2316EA,
      0x87449766, 0xF11E1A16, 0x995365B0, 0x263ED27D,
      0x64DE77B5, 0x6C4F6186, 0x4E73B062, 0x014F1E3A] =
     [0x48C4904A, 0x3CC93D8A, 0xA4529450, 0xD688C345,
      0xF3772531, 0xC87508FD, 0x3F48A22B, 0x70ACAD36,
      0x54F0C88F, 0x329C6277, 0x72AA10BA, 0xD802FAD4,
      0x9A8D6FCF, 0xC7FBCF06, 0xD778577F, 0x636F8472]"
  by (simp add: abc_block_words round_ref_eval sigma_ref_def mix_ref_eval G_ref_def Let_def add32_eq rotr32_eval
      cong: let_weak_cong case_prod_weak_cong)

lemma zero_h_round8:
  "round_ref
     (block_words rfc_abc_block)
     (sigma_ref ! 8)
     [0x48C4904A, 0x3CC93D8A, 0xA4529450, 0xD688C345,
      0xF3772531, 0xC87508FD, 0x3F48A22B, 0x70ACAD36,
      0x54F0C88F, 0x329C6277, 0x72AA10BA, 0xD802FAD4,
      0x9A8D6FCF, 0xC7FBCF06, 0xD778577F, 0x636F8472] =
     [0xEA361121, 0x75782972, 0x446E02F1, 0x552F3E6C,
      0xED192237, 0x8609CA9C, 0xC0965139, 0xD7A3C9DB,
      0x35051DEE, 0xCD507905, 0x97062547, 0x07FD0A1E,
      0xE9DA2828, 0x1582CDA1, 0x3F806627, 0x528CBB07]"
  by (simp add: abc_block_words round_ref_eval sigma_ref_def mix_ref_eval G_ref_def Let_def add32_eq rotr32_eval
      cong: let_weak_cong case_prod_weak_cong)

lemma zero_h_round9:
  "round_ref
     (block_words rfc_abc_block)
     (sigma_ref ! 9)
     [0xEA361121, 0x75782972, 0x446E02F1, 0x552F3E6C,
      0xED192237, 0x8609CA9C, 0xC0965139, 0xD7A3C9DB,
      0x35051DEE, 0xCD507905, 0x97062547, 0x07FD0A1E,
      0xE9DA2828, 0x1582CDA1, 0x3F806627, 0x528CBB07] =
     [0x3D649DFA, 0x93A6BCD7, 0xDC3EE7FD, 0x1F319C48,
      0x1894861C, 0x05B329B1, 0xC17E6ABE, 0xC2EB7EC5,
      0x387A330D, 0xBD775096, 0x706690A1, 0x63BF996C,
      0x158E5981, 0x692FC5C2, 0x17EDAA45, 0x7C111F7A]"
  by (simp add: abc_block_words round_ref_eval sigma_ref_def mix_ref_eval G_ref_def Let_def add32_eq rotr32_eval
      cong: let_weak_cong case_prod_weak_cong)

lemma zero_h_rounds:
  "rounds_ref
     (block_words rfc_abc_block)
     [0x00000000, 0x00000000, 0x00000000, 0x00000000,
      0x00000000, 0x00000000, 0x00000000, 0x00000000,
      0x6A09E667, 0xBB67AE85, 0x3C6EF372, 0xA54FF53A,
      0x510E527F, 0x9B05688C, 0x1F83D9AB, 0x5BE0CD19] =
     [0x3D649DFA, 0x93A6BCD7, 0xDC3EE7FD, 0x1F319C48,
      0x1894861C, 0x05B329B1, 0xC17E6ABE, 0xC2EB7EC5,
      0x387A330D, 0xBD775096, 0x706690A1, 0x63BF996C,
      0x158E5981, 0x692FC5C2, 0x17EDAA45, 0x7C111F7A]"
  unfolding rounds_ref_eval Let_def
  by (simp only: zero_h_round0 zero_h_round1 zero_h_round2 zero_h_round3 zero_h_round4 zero_h_round5 zero_h_round6 zero_h_round7 zero_h_round8 zero_h_round9)

lemma iv_h_round0:
  "round_ref
     (block_words rfc_abc_block)
     (sigma_ref ! 0)
     [0x6A09E667, 0xBB67AE85, 0x3C6EF372, 0xA54FF53A,
      0x510E527F, 0x9B05688C, 0x1F83D9AB, 0x5BE0CD19,
      0x6A09E667, 0xBB67AE85, 0x3C6EF372, 0xA54FF53A,
      0x510E527F, 0x9B05688C, 0x1F83D9AB, 0x5BE0CD19] =
     [0x442F9B25, 0x77D79E89, 0xBC2FA4E8, 0x004E4DD2,
      0x2196FF20, 0x2DFE90BA, 0x038B1499, 0x3C65CDB8,
      0xC1B18647, 0x5BB070C9, 0x2E3E48FF, 0xBC7AC1D1,
      0x42EFC419, 0xC3EC7A16, 0xF8AD44D8, 0x41E4F0C5]"
  by (simp add: abc_block_words round_ref_eval sigma_ref_def mix_ref_eval G_ref_def Let_def add32_eq rotr32_eval
      cong: let_weak_cong case_prod_weak_cong)

lemma iv_h_round1:
  "round_ref
     (block_words rfc_abc_block)
     (sigma_ref ! 1)
     [0x442F9B25, 0x77D79E89, 0xBC2FA4E8, 0x004E4DD2,
      0x2196FF20, 0x2DFE90BA, 0x038B1499, 0x3C65CDB8,
      0xC1B18647, 0x5BB070C9, 0x2E3E48FF, 0xBC7AC1D1,
      0x42EFC419, 0xC3EC7A16, 0xF8AD44D8, 0x41E4F0C5] =
     [0x0DA855CD, 0x5C878BFD, 0xE789E6C6, 0x8AA481A2,
      0x92B430F5, 0x85659562, 0xF87B9336, 0xAAA80A2A,
      0x238E18D2, 0x9AB09CBF, 0x961F6B55, 0xB8E6B7E7,
      0x7199718F, 0x4C042E44, 0xACE5F416, 0x9274B564]"
  by (simp add: abc_block_words round_ref_eval sigma_ref_def mix_ref_eval G_ref_def Let_def add32_eq rotr32_eval
      cong: let_weak_cong case_prod_weak_cong)

lemma iv_h_round2:
  "round_ref
     (block_words rfc_abc_block)
     (sigma_ref ! 2)
     [0x0DA855CD, 0x5C878BFD, 0xE789E6C6, 0x8AA481A2,
      0x92B430F5, 0x85659562, 0xF87B9336, 0xAAA80A2A,
      0x238E18D2, 0x9AB09CBF, 0x961F6B55, 0xB8E6B7E7,
      0x7199718F, 0x4C042E44, 0xACE5F416, 0x9274B564] =
     [0x9701AA62, 0xBF3F5DA0, 0x7623BE89, 0xF4516E38,
      0xB184E576, 0xA1DF632F, 0x65B910AD, 0xA5E8D777,
      0xFFF7E029, 0x8D357ED4, 0xCC89B561, 0xC3AF8F45,
      0x06F44A87, 0xDFFC4E60, 0x2CF5F035, 0x1D1A49A0]"
  by (simp add: abc_block_words round_ref_eval sigma_ref_def mix_ref_eval G_ref_def Let_def add32_eq rotr32_eval
      cong: let_weak_cong case_prod_weak_cong)

lemma iv_h_round3:
  "round_ref
     (block_words rfc_abc_block)
     (sigma_ref ! 3)
     [0x9701AA62, 0xBF3F5DA0, 0x7623BE89, 0xF4516E38,
      0xB184E576, 0xA1DF632F, 0x65B910AD, 0xA5E8D777,
      0xFFF7E029, 0x8D357ED4, 0xCC89B561, 0xC3AF8F45,
      0x06F44A87, 0xDFFC4E60, 0x2CF5F035, 0x1D1A49A0] =
     [0xA83CFA05, 0x0446AB53, 0xFBFC1F75, 0x45816AC8,
      0xD81CAEA0, 0x295CCB58, 0xE92E0D6E, 0x31597C1D,
      0xAD0E84CA, 0x7AADB2C9, 0x984D1B05, 0x279921D4,
      0x3612669E, 0x59DCE470, 0xEF9DE712, 0xB685A483]"
  by (simp add: abc_block_words round_ref_eval sigma_ref_def mix_ref_eval G_ref_def Let_def add32_eq rotr32_eval
      cong: let_weak_cong case_prod_weak_cong)

lemma iv_h_round4:
  "round_ref
     (block_words rfc_abc_block)
     (sigma_ref ! 4)
     [0xA83CFA05, 0x0446AB53, 0xFBFC1F75, 0x45816AC8,
      0xD81CAEA0, 0x295CCB58, 0xE92E0D6E, 0x31597C1D,
      0xAD0E84CA, 0x7AADB2C9, 0x984D1B05, 0x279921D4,
      0x3612669E, 0x59DCE470, 0xEF9DE712, 0xB685A483] =
     [0xF46F6670, 0x8D423B3E, 0x0D8AD233, 0x1482F6D7,
      0xD6FBE812, 0xF9784B6F, 0x8ACE5E6A, 0xCEE083D8,
      0xF042342E, 0x88CE71A4, 0x77EBA1CC, 0x5B0B8C41,
      0x31238E4E, 0xC98AD029, 0x26C97DBB, 0xCA029E5F]"
  by (simp add: abc_block_words round_ref_eval sigma_ref_def mix_ref_eval G_ref_def Let_def add32_eq rotr32_eval
      cong: let_weak_cong case_prod_weak_cong)

lemma iv_h_round5:
  "round_ref
     (block_words rfc_abc_block)
     (sigma_ref ! 5)
     [0xF46F6670, 0x8D423B3E, 0x0D8AD233, 0x1482F6D7,
      0xD6FBE812, 0xF9784B6F, 0x8ACE5E6A, 0xCEE083D8,
      0xF042342E, 0x88CE71A4, 0x77EBA1CC, 0x5B0B8C41,
      0x31238E4E, 0xC98AD029, 0x26C97DBB, 0xCA029E5F] =
     [0x6373A102, 0xA3C189D0, 0x1D35CAAF, 0x0599D346,
      0x28E33450, 0x7A5F7A02, 0xF8439FB1, 0xF7F8BC09,
      0x452C4A50, 0x8650912F, 0xA47F26A0, 0x448E7106,
      0x5E012031, 0x788997CC, 0x1D215E5A, 0x1CF8B375]"
  by (simp add: abc_block_words round_ref_eval sigma_ref_def mix_ref_eval G_ref_def Let_def add32_eq rotr32_eval
      cong: let_weak_cong case_prod_weak_cong)

lemma iv_h_round6:
  "round_ref
     (block_words rfc_abc_block)
     (sigma_ref ! 6)
     [0x6373A102, 0xA3C189D0, 0x1D35CAAF, 0x0599D346,
      0x28E33450, 0x7A5F7A02, 0xF8439FB1, 0xF7F8BC09,
      0x452C4A50, 0x8650912F, 0xA47F26A0, 0x448E7106,
      0x5E012031, 0x788997CC, 0x1D215E5A, 0x1CF8B375] =
     [0x558DB1D5, 0x39096112, 0x9C99F56D, 0x2E981531,
      0x5C1201DB, 0x042E27CE, 0xE8F9099E, 0x18A2D811,
      0x86DC19CE, 0x736B1F5B, 0xCD4CA52E, 0xC797003D,
      0x090CEECF, 0xEB11D273, 0x033DD6F2, 0x222AC7CD]"
  by (simp add: abc_block_words round_ref_eval sigma_ref_def mix_ref_eval G_ref_def Let_def add32_eq rotr32_eval
      cong: let_weak_cong case_prod_weak_cong)

lemma iv_h_round7:
  "round_ref
     (block_words rfc_abc_block)
     (sigma_ref ! 7)
     [0x558DB1D5, 0x39096112, 0x9C99F56D, 0x2E981531,
      0x5C1201DB, 0x042E27CE, 0xE8F9099E, 0x18A2D811,
      0x86DC19CE, 0x736B1F5B, 0xCD4CA52E, 0xC797003D,
      0x090CEECF, 0xEB11D273, 0x033DD6F2, 0x222AC7CD] =
     [0xF5D05035, 0x889E77CD, 0xC13474F9, 0x05A391EB,
      0x33D7533B, 0xE087CE97, 0xADA22E7A, 0x705CE7EA,
      0x04C9A64C, 0x050130C3, 0x57415477, 0x1E995FED,
      0x6DA90C10, 0xBB474229, 0x91DC4ED5, 0xC4BD6D2D]"
  by (simp add: abc_block_words round_ref_eval sigma_ref_def mix_ref_eval G_ref_def Let_def add32_eq rotr32_eval
      cong: let_weak_cong case_prod_weak_cong)

lemma iv_h_round8:
  "round_ref
     (block_words rfc_abc_block)
     (sigma_ref ! 8)
     [0xF5D05035, 0x889E77CD, 0xC13474F9, 0x05A391EB,
      0x33D7533B, 0xE087CE97, 0xADA22E7A, 0x705CE7EA,
      0x04C9A64C, 0x050130C3, 0x57415477, 0x1E995FED,
      0x6DA90C10, 0xBB474229, 0x91DC4ED5, 0xC4BD6D2D] =
     [0x8E7C14F2, 0x9F2AC5BF, 0x53644787, 0xE77DD456,
      0xBA608919, 0x8E3DE849, 0xCFC94061, 0x86BF1B3E,
      0xF4313B19, 0xF9FB3F4A, 0x00CCAAF1, 0x9F11484F,
      0xD6725AB3, 0x60D97971, 0x4BF405D9, 0xC86CA86F]"
  by (simp add: abc_block_words round_ref_eval sigma_ref_def mix_ref_eval G_ref_def Let_def add32_eq rotr32_eval
      cong: let_weak_cong case_prod_weak_cong)

lemma iv_h_round9:
  "round_ref
     (block_words rfc_abc_block)
     (sigma_ref ! 9)
     [0x8E7C14F2, 0x9F2AC5BF, 0x53644787, 0xE77DD456,
      0xBA608919, 0x8E3DE849, 0xCFC94061, 0x86BF1B3E,
      0xF4313B19, 0xF9FB3F4A, 0x00CCAAF1, 0x9F11484F,
      0xD6725AB3, 0x60D97971, 0x4BF405D9, 0xC86CA86F] =
     [0x6319E36B, 0x51E62E55, 0x177DE7EA, 0x7B140D4F,
      0xB721955A, 0xC01D8BE1, 0x86C5A4DF, 0xD9093AB1,
      0x55A72F99, 0x0C02C575, 0x1D0CE90B, 0xAA0ED68F,
      0xCE20B7A9, 0x0690E78E, 0x78EAE754, 0xB402352F]"
  by (simp add: abc_block_words round_ref_eval sigma_ref_def mix_ref_eval G_ref_def Let_def add32_eq rotr32_eval
      cong: let_weak_cong case_prod_weak_cong)

lemma iv_h_rounds:
  "rounds_ref
     (block_words rfc_abc_block)
     [0x6A09E667, 0xBB67AE85, 0x3C6EF372, 0xA54FF53A,
      0x510E527F, 0x9B05688C, 0x1F83D9AB, 0x5BE0CD19,
      0x6A09E667, 0xBB67AE85, 0x3C6EF372, 0xA54FF53A,
      0x510E527F, 0x9B05688C, 0x1F83D9AB, 0x5BE0CD19] =
     [0x6319E36B, 0x51E62E55, 0x177DE7EA, 0x7B140D4F,
      0xB721955A, 0xC01D8BE1, 0x86C5A4DF, 0xD9093AB1,
      0x55A72F99, 0x0C02C575, 0x1D0CE90B, 0xAA0ED68F,
      0xCE20B7A9, 0x0690E78E, 0x78EAE754, 0xB402352F]"
  unfolding rounds_ref_eval Let_def
  by (simp only: iv_h_round0 iv_h_round1 iv_h_round2 iv_h_round3 iv_h_round4 iv_h_round5 iv_h_round6 iv_h_round7 iv_h_round8 iv_h_round9)

lemma abc_compress_ref:
  "compress_ref [0x6B08E647, 0xBB67AE85, 0x3C6EF372, 0xA54FF53A,
                  0x510E527F, 0x9B05688C, 0x1F83D9AB, 0x5BE0CD19] [3, 0] [0xFFFFFFFF, 0] rfc_abc_block =
     [0x8C5E8C50, 0xE2147C32, 0xA32BA7E1, 0x2F45EB4E,
      0x208B4537, 0x293AD69E, 0x4C9B994D, 0x82596786]"
proof -
  have "load_ref [0x6B08E647, 0xBB67AE85, 0x3C6EF372, 0xA54FF53A,
                  0x510E527F, 0x9B05688C, 0x1F83D9AB, 0x5BE0CD19] [3, 0] [0xFFFFFFFF, 0] =
     [0x6B08E647, 0xBB67AE85, 0x3C6EF372, 0xA54FF53A,
      0x510E527F, 0x9B05688C, 0x1F83D9AB, 0x5BE0CD19,
      0x6A09E667, 0xBB67AE85, 0x3C6EF372, 0xA54FF53A,
      0x510E527C, 0x9B05688C, 0xE07C2654, 0x5BE0CD19]"
    by (simp add: load_ref_def IV_ref_def)
  then show ?thesis
    unfolding compress_ref_def finalize_ref_def upt8
    by (simp add: abc_rounds)
qed

lemma zero_h_compress_ref:
  "compress_ref [0, 0, 0, 0, 0, 0, 0, 0] [0, 0] [0, 0] rfc_abc_block =
     [0x051EAEF7, 0x2ED1EC41, 0xAC58775C, 0x7C8E0524,
      0x0D1ADF9D, 0x6C9CEC73, 0xD693C0FB, 0xBEFA61BF]"
proof -
  have "load_ref [0, 0, 0, 0, 0, 0, 0, 0] [0, 0] [0, 0] =
     [0x00000000, 0x00000000, 0x00000000, 0x00000000,
      0x00000000, 0x00000000, 0x00000000, 0x00000000,
      0x6A09E667, 0xBB67AE85, 0x3C6EF372, 0xA54FF53A,
      0x510E527F, 0x9B05688C, 0x1F83D9AB, 0x5BE0CD19]"
    by (simp add: load_ref_def IV_ref_def)
  then show ?thesis
    unfolding compress_ref_def finalize_ref_def upt8
    by (simp add: zero_h_rounds)
qed

lemma iv_h_compress_ref:
  "compress_ref IV_ref [0, 0] [0, 0] rfc_abc_block =
     [0x5CB72A95, 0xE68345A5, 0x361FFD93, 0x74552EFA,
      0x280F708C, 0x5D8804E3, 0xE1AC9A20, 0x36EBC287]"
proof -
  have "load_ref IV_ref [0, 0] [0, 0] =
     [0x6A09E667, 0xBB67AE85, 0x3C6EF372, 0xA54FF53A,
      0x510E527F, 0x9B05688C, 0x1F83D9AB, 0x5BE0CD19,
      0x6A09E667, 0xBB67AE85, 0x3C6EF372, 0xA54FF53A,
      0x510E527F, 0x9B05688C, 0x1F83D9AB, 0x5BE0CD19]"
    by (simp add: load_ref_def IV_ref_def)
  then show ?thesis
    unfolding compress_ref_def finalize_ref_def upt8
    by (simp add: iv_h_rounds IV_ref_def)
qed

section \<open>Memory: alignment, layout and frame\<close>





lemma vec_st_mem_other:
  assumes "a < vec_ea off p \<or> vec_ea off p + 16 \<le> a"
  shows "vec_st_mem v off p mem a = mem a"
  using assms by (auto simp: vec_st_mem_def)









lemma vec_ld_mem_low_bits:
  assumes "r < 16"
  shows "vec_ld_mem 0 (16 * q + r) mem = vec_ld_mem 0 (16 * q) mem"
  using assms by (simp add: vec_ld_mem_def vec_ea_def)



section \<open>The properties claimed of the compression function\<close>

text \<open>
  Claim C1. For every context \<open>(H, t, f)\<close> and every 64-byte block, \<open>blake2s_compress\<close>
  computes the scalar reference: the loader, then the round of four column and four
  diagonal applications of \<open>G\<close> ten times in sequence, then the finalizer.
\<close>
theorem blake2s_compress_refines_scalar:
  assumes "length (ctx_H ctx) = 8" and "length (ctx_t ctx) = 2" and "length (ctx_f ctx) = 2"
    and "length m = 64"
  shows "blake2s_compress ctx m =
         ctx\<lparr>ctx_H := compress_ref (ctx_H ctx) (ctx_t ctx) (ctx_f ctx) m\<rparr>"
  using assms(1-3) by (rule blake2s_compress_ref)

theorem blake2s_compress_refines_scalar_witness:
  "length (ctx_H rfc_abc_ctx) = 8 \<and> length (ctx_t rfc_abc_ctx) = 2 \<and>
   length (ctx_f rfc_abc_ctx) = 2 \<and> length rfc_abc_block = 64 \<and>
   blake2s_compress rfc_abc_ctx rfc_abc_block =
     rfc_abc_ctx\<lparr>ctx_H := compress_ref (ctx_H rfc_abc_ctx) (ctx_t rfc_abc_ctx)
                               (ctx_f rfc_abc_ctx) rfc_abc_block\<rparr>"
proof -
  have h: "length (ctx_H rfc_abc_ctx) = 8" and t: "length (ctx_t rfc_abc_ctx) = 2"
    and f: "length (ctx_f rfc_abc_ctx) = 2"
    by (simp_all add: rfc_abc_ctx_def)
  have l: "length rfc_abc_block = 64"
    by (simp add: rfc_abc_block_def)
  show ?thesis
    using h t f l blake2s_compress_refines_scalar [OF h t f l] by (simp only: simp_thms)
qed

text \<open>
  Claim C2, as amended. On the input of the test vector of RFC 7693 (Appendix B,
  BLAKE2s-256 of \<open>abc\<close>), that is the chaining value \<open>IV\<close> with its first word XORed
  with \<open>0x01010020\<close>, the counter \<open>t = (3, 0)\<close>, the flags \<open>f = (0xFFFFFFFF, 0)\<close> and
  the block \<open>abc\<close> padded with zeros, \<open>blake2s_compress\<close> produces exactly the eight
  words \<open>h[8]\<close> that the RFC publishes.
\<close>
theorem blake2s_compress_rfc7693_abc:
  "ctx_H (blake2s_compress rfc_abc_ctx rfc_abc_block) = rfc_abc_h"
proof -
  have "blake2s_compress rfc_abc_ctx rfc_abc_block =
      rfc_abc_ctx\<lparr>ctx_H := compress_ref (ctx_H rfc_abc_ctx) (ctx_t rfc_abc_ctx)
                                (ctx_f rfc_abc_ctx) rfc_abc_block\<rparr>"
    by (rule blake2s_compress_ref) (simp_all add: rfc_abc_ctx_def)
  then show ?thesis
    by (simp add: rfc_abc_ctx_def abc_compress_ref rfc_abc_h_def)
qed

text \<open>
  Claim C2 as stated takes the counter \<open>t = (0, 0)\<close> and the flags \<open>f = (0, 0)\<close>. With
  those, on the block of the RFC, the result is not the published value, neither from
  the all-zero chaining value nor from the chaining value \<open>IV\<close>.
\<close>
theorem blake2s_compress_t0_f0_counterexample:
  "ctx_H (blake2s_compress \<lparr>ctx_H = [0, 0, 0, 0, 0, 0, 0, 0], ctx_t = [0, 0], ctx_f = [0, 0]\<rparr>
            rfc_abc_block) \<noteq> rfc_abc_h \<and>
   ctx_H (blake2s_compress \<lparr>ctx_H = IV_ref, ctx_t = [0, 0], ctx_f = [0, 0]\<rparr>
            rfc_abc_block) \<noteq> rfc_abc_h"
proof -
  let ?z = "\<lparr>ctx_H = [0, 0, 0, 0, 0, 0, 0, 0], ctx_t = [0, 0], ctx_f = [0, 0 :: u32]\<rparr>"
  let ?i = "\<lparr>ctx_H = IV_ref, ctx_t = [0, 0], ctx_f = [0, 0 :: u32]\<rparr>"
  have "blake2s_compress ?z rfc_abc_block =
      ?z\<lparr>ctx_H := compress_ref (ctx_H ?z) (ctx_t ?z) (ctx_f ?z) rfc_abc_block\<rparr>"
    by (rule blake2s_compress_ref) simp_all
  then have z: "ctx_H (blake2s_compress ?z rfc_abc_block) \<noteq> rfc_abc_h"
    by (simp add: zero_h_compress_ref rfc_abc_h_def)
  have "blake2s_compress ?i rfc_abc_block =
      ?i\<lparr>ctx_H := compress_ref (ctx_H ?i) (ctx_t ?i) (ctx_f ?i) rfc_abc_block\<rparr>"
    by (rule blake2s_compress_ref) (simp_all add: IV_ref_def)
  then have i: "ctx_H (blake2s_compress ?i rfc_abc_block) \<noteq> rfc_abc_h"
    by (simp add: iv_h_compress_ref rfc_abc_h_def)
  from z i show ?thesis ..
qed

text \<open>
  Claim C3. For every 64-byte block, the byte-sliced load puts byte \<open>3 - k\<close> of word
  \<open>i\<close> of the block at position \<open>i\<close> of slice vector \<open>k\<close>, and for every round \<open>r\<close>
  and every lane \<open>k\<close> in 0..3 that load followed by the reassembly of \<open>FULLROUND\<close> (\<open>vec_perm\<close>, \<open>SELW\<close>,
  \<open>vec_sld\<close>, \<open>vec_mergeh\<close>, \<open>vec_mergel\<close>) yields the message words
  \<open>m[sigma[r][2k]]\<close> and \<open>m[sigma[r][2k+1]]\<close> for the columns and
  \<open>m[sigma[r][8+2k]]\<close> and \<open>m[sigma[r][9+2k]]\<close> for the diagonals, where \<open>m[i]\<close> is
  the little-endian word in the block bytes \<open>[4i, 4i+4)\<close>.
\<close>

theorem byteslice_schedule_le_words:
  assumes "length msg = 64" and "r < 10" and "k < 4"
  shows "vu8_of_vu32 (byteslice msg ! k) = map (\<lambda>i. msg ! (4 * i + (3 - k))) [0..<16] \<and>
    (case FULLROUND_msg r (byteslice msg) of (m1, m2, m3, m4) \<Rightarrow>
       lane m1 k = msg_word msg (unat (blake2s_vsigma ! r ! (2 * k))) \<and>
       lane m2 k = msg_word msg (unat (blake2s_vsigma ! r ! (2 * k + 1))) \<and>
       lane m3 k = msg_word msg (unat (blake2s_vsigma ! r ! (8 + 2 * k))) \<and>
       lane m4 k = msg_word msg (unat (blake2s_vsigma ! r ! (9 + 2 * k))))"
  using byteslice_bytes [OF assms(3), of msg] FULLROUND_msg_lanes [OF assms]
  by (rule conjI)

theorem byteslice_schedule_le_words_witness:
  "length rfc_abc_block = 64 \<and> (1::nat) < 10 \<and> (2::nat) < 4 \<and>
   vu8_of_vu32 (byteslice rfc_abc_block ! 2) =
     map (\<lambda>i. rfc_abc_block ! (4 * i + (3 - 2))) [0..<16] \<and>
   (case FULLROUND_msg 1 (byteslice rfc_abc_block) of (m1, m2, m3, m4) \<Rightarrow>
     lane m1 2 = msg_word rfc_abc_block (unat (blake2s_vsigma ! 1 ! (2 * 2))) \<and>
     lane m2 2 = msg_word rfc_abc_block (unat (blake2s_vsigma ! 1 ! (2 * 2 + 1))) \<and>
     lane m3 2 = msg_word rfc_abc_block (unat (blake2s_vsigma ! 1 ! (8 + 2 * 2))) \<and>
     lane m4 2 = msg_word rfc_abc_block (unat (blake2s_vsigma ! 1 ! (9 + 2 * 2))))"
proof -
  have l: "length rfc_abc_block = 64"
    by (simp add: rfc_abc_block_def)
  have r: "(1::nat) < 10" and k: "(2::nat) < 4"
    by simp_all
  show ?thesis
    using l r k byteslice_schedule_le_words [OF l r k] by blast
qed

text \<open>
  Claim C4. The table \<open>blake2s_vsigma\<close> is the message schedule SIGMA of RFC 7693, entry
  for entry; each of its ten rows is a permutation of 0..15; and in round \<open>r\<close> the
  macro \<open>FULLROUND\<close> is the scalar round in which positions \<open>(2k, 2k+1)\<close> of row \<open>r\<close>
  select the message words \<open>(M, N)\<close> of the \<open>k\<close>-th application of \<open>G\<close>, entries 0..7
  on the four columns and entries 8..15 on the four diagonals.
\<close>
theorem blake2s_vsigma_is_rfc_schedule:
  assumes "r < 10" and "length v = 16" and "length msg = 64"
  shows "map (map unat) blake2s_vsigma = sigma_ref \<and>
         distinct (map unat (blake2s_vsigma ! r)) \<and>
         set (map unat (blake2s_vsigma ! r)) = {0..<16} \<and>
         FULLROUND r (byteslice msg) (vecs_of v) =
           vecs_of (round_ref (block_words msg) (map unat (blake2s_vsigma ! r)) v)"
  unfolding vsigma_row [OF assms(1)]
  using sigma_rows_perm [OF assms(1)] FULLROUND_round_ref [OF assms(1) assms(2), of msg]
  by (simp only: vsigma_sigma_ref simp_thms)

theorem blake2s_vsigma_is_rfc_schedule_witness:
  "(1::nat) < 10 \<and> length (replicate 16 (0::u32)) = 16 \<and> length rfc_abc_block = 64 \<and>
   map (map unat) blake2s_vsigma = sigma_ref \<and>
   distinct (map unat (blake2s_vsigma ! 1)) \<and>
   set (map unat (blake2s_vsigma ! 1)) = {0..<16} \<and>
   FULLROUND 1 (byteslice rfc_abc_block) (vecs_of (replicate 16 0)) =
     vecs_of (round_ref (block_words rfc_abc_block) (map unat (blake2s_vsigma ! 1)) (replicate 16 0))"
proof -
  have l: "length rfc_abc_block = 64"
    by (simp add: rfc_abc_block_def)
  have r: "(1::nat) < 10" and v: "length (replicate 16 (0::u32)) = 16"
    by simp_all
  show ?thesis
    using l r v blake2s_vsigma_is_rfc_schedule [OF r v l] by simp
qed

text \<open>
  Claim C5. Every application of the vector macro \<open>BLAKE2S_VG\<close> is, lane by lane, the
  mixing function \<open>G\<close> on the quadruple \<open>(a, b, c, d)\<close> with the message words
  \<open>(M, N)\<close>: the eight steps \<open>a = a + b + M\<close>, \<open>d = ror(d ^ a, 16)\<close>,
  \<open>c = c + d\<close>, \<open>b = ror(b ^ c, 12)\<close>, \<open>a = a + b + N\<close>, \<open>d = ror(d ^ a, 8)\<close>,
  \<open>c = c + d\<close>, \<open>b = ror(b ^ c, 7)\<close>. Every addition wraps modulo \<open>2^32\<close>, and the
  left rotations by 16, 20, 24 and 25 of the code are the right rotations by 16, 12, 8
  and 7.
\<close>

theorem BLAKE2S_VG_is_G:
  "BLAKE2S_VG (VU32 M0 M1 M2 M3) (VU32 N0 N1 N2 N3)
     (VU32 a0 a1 a2 a3) (VU32 b0 b1 b2 b3) (VU32 c0 c1 c2 c3) (VU32 d0 d1 d2 d3) =
   (case (G_ref a0 b0 c0 d0 M0 N0, G_ref a1 b1 c1 d1 M1 N1,
          G_ref a2 b2 c2 d2 M2 N2, G_ref a3 b3 c3 d3 M3 N3) of
      ((x0, y0, z0, w0), (x1, y1, z1, w1), (x2, y2, z2, w2), (x3, y3, z3, w3)) \<Rightarrow>
        (VU32 x0 x1 x2 x3, VU32 y0 y1 y2 y3, VU32 z0 z1 z2 z3, VU32 w0 w1 w2 w3)) \<and>
   G_ref a b c d M N =
     (let a = a + b + M;
          d = word_rotr 16 (d XOR a);
          c = c + d;
          b = word_rotr 12 (b XOR c);
          a = a + b + N;
          d = word_rotr 8 (d XOR a);
          c = c + d;
          b = word_rotr 7 (b XOR c)
      in (a, b, c, d)) \<and>
   unat (x + y :: u32) = (unat x + unat y) mod 2 ^ 32 \<and>
   ror vr1 (VU32 e0 e1 e2 e3) =
     VU32 (word_rotr 16 e0) (word_rotr 16 e1) (word_rotr 16 e2) (word_rotr 16 e3) \<and>
   ror vr2 (VU32 e0 e1 e2 e3) =
     VU32 (word_rotr 12 e0) (word_rotr 12 e1) (word_rotr 12 e2) (word_rotr 12 e3) \<and>
   ror vr3 (VU32 e0 e1 e2 e3) =
     VU32 (word_rotr 8 e0) (word_rotr 8 e1) (word_rotr 8 e2) (word_rotr 8 e3) \<and>
   ror vr4 (VU32 e0 e1 e2 e3) =
     VU32 (word_rotr 7 e0) (word_rotr 7 e1) (word_rotr 7 e2) (word_rotr 7 e3)"
proof -
  have "BLAKE2S_VG (VU32 M0 M1 M2 M3) (VU32 N0 N1 N2 N3)
     (VU32 a0 a1 a2 a3) (VU32 b0 b1 b2 b3) (VU32 c0 c1 c2 c3) (VU32 d0 d1 d2 d3) =
   (case (G_ref a0 b0 c0 d0 M0 N0, G_ref a1 b1 c1 d1 M1 N1,
          G_ref a2 b2 c2 d2 M2 N2, G_ref a3 b3 c3 d3 M3 N3) of
      ((x0, y0, z0, w0), (x1, y1, z1, w1), (x2, y2, z2, w2), (x3, y3, z3, w3)) \<Rightarrow>
        (VU32 x0 x1 x2 x3, VU32 y0 y1 y2 y3, VU32 z0 z1 z2 z3, VU32 w0 w1 w2 w3))"
    unfolding BLAKE2S_VG_lanes Let_def by (simp add: split_beta)
  moreover have "unat (x + y) = (unat x + unat y) mod 2 ^ 32"
    by (simp add: unat_word_ariths)
  ultimately show ?thesis
    by (simp only: G_ref_word_rotr [symmetric] ror_word_rotr simp_thms)
qed

text \<open>
  Claim C6. For every context the state loader sets the sixteen words of the working state
  to \<open>v[0..8) = H\<close>, \<open>v[8..12) = IV[0..4)\<close> and \<open>v[12..16) = IV[4..8)\<close> XORed with
  \<open>(t0, t1, f0, f1)\<close> in that order, where \<open>IV\<close> is the initialization vector of
  BLAKE2s, held in \<open>blake2s_viv\<close>; nothing else enters the state.
\<close>
theorem blake2s_load_working_state:
  assumes "length (ctx_H ctx) = 8" and "length (ctx_t ctx) = 2" and "length (ctx_f ctx) = 2"
  shows "words_of (blake2s_load ctx) =
           ctx_H ctx @ take 4 IV_ref @
           map2 (\<lambda>x y. x XOR y) (drop 4 IV_ref)
             [ctx_t ctx ! 0, ctx_t ctx ! 1, ctx_f ctx ! 0, ctx_f ctx ! 1] \<and>
         blake2s_viv =
           [VU32 (IV_ref ! 0) (IV_ref ! 1) (IV_ref ! 2) (IV_ref ! 3),
            VU32 (IV_ref ! 4) (IV_ref ! 5) (IV_ref ! 6) (IV_ref ! 7)]"
proof -
  have tf: "ctx_t ctx @ ctx_f ctx = [ctx_t ctx ! 0, ctx_t ctx ! 1, ctx_f ctx ! 0, ctx_f ctx ! 1]"
    using list2 [OF assms(2)] list2 [OF assms(3)] by simp
  have "words_of (blake2s_load ctx) = load_ref (ctx_H ctx) (ctx_t ctx) (ctx_f ctx)"
    unfolding blake2s_load_ref [OF assms]
    by (rule words_of_vecs_of) (rule length_load_ref [OF assms])
  then show ?thesis
    unfolding load_ref_def tf by (simp add: blake2s_viv_def IV_ref_def)
qed

theorem blake2s_load_working_state_witness:
  "length (ctx_H rfc_abc_ctx) = 8 \<and> length (ctx_t rfc_abc_ctx) = 2 \<and>
   length (ctx_f rfc_abc_ctx) = 2 \<and>
   words_of (blake2s_load rfc_abc_ctx) =
     ctx_H rfc_abc_ctx @ take 4 IV_ref @
     map2 (\<lambda>x y. x XOR y) (drop 4 IV_ref)
       [ctx_t rfc_abc_ctx ! 0, ctx_t rfc_abc_ctx ! 1, ctx_f rfc_abc_ctx ! 0, ctx_f rfc_abc_ctx ! 1]"
proof -
  have h: "length (ctx_H rfc_abc_ctx) = 8" and t: "length (ctx_t rfc_abc_ctx) = 2"
    and f: "length (ctx_f rfc_abc_ctx) = 2"
    by (simp_all add: rfc_abc_ctx_def)
  show ?thesis
    using h t f blake2s_load_working_state [OF h t f] by simp
qed

text \<open>
  Claim C7. After the ten rounds, with \<open>v\<close> the sixteen words of the state they leave,
  the call writes \<open>H[i] xor v[i] xor v[i+8]\<close> for \<open>i\<close> in 0..7 back into the chaining
  value of the context; the state is used for nothing else.
\<close>
theorem blake2s_compress_finalizer:
  assumes "length (ctx_H ctx) = 8"
  shows "blake2s_compress ctx m =
    (let v = words_of (rounds10 (byteslice m) (blake2s_load ctx))
     in ctx\<lparr>ctx_H := map (\<lambda>i. ctx_H ctx ! i XOR v ! i XOR v ! (i + 8)) [0..<8]\<rparr>)"
  using assms by (rule blake2s_compress_final)

theorem blake2s_compress_finalizer_witness:
  "length (ctx_H rfc_abc_ctx) = 8 \<and>
   blake2s_compress rfc_abc_ctx rfc_abc_block =
    (let v = words_of (rounds10 (byteslice rfc_abc_block) (blake2s_load rfc_abc_ctx))
     in rfc_abc_ctx\<lparr>ctx_H := map (\<lambda>i. ctx_H rfc_abc_ctx ! i XOR v ! i XOR v ! (i + 8)) [0..<8]\<rparr>)"
proof -
  have h: "length (ctx_H rfc_abc_ctx) = 8"
    by (simp add: rfc_abc_ctx_def)
  show ?thesis
    using h blake2s_compress_finalizer [OF h, of rfc_abc_block] by (simp only: simp_thms)
qed





end
